theory Spec2Isabelle
  imports Complex_Main
begin

chapter \<open>Relation-aware graph self-attention layer\<close>

text \<open>
  A shallow embedding of \<open>GraphSelfAttentionLayer\<close>
  (\<open>lib/model/faster_rcnn/graph_att_layer.py\<close>), followed by the properties of its
  \<open>forward\<close> operation.
\<close>

section \<open>Tensors\<close>

text \<open>
  A tensor of the numeric framework is a shape and its elements in row-major order, the
  contiguous layout on which \<open>view\<close> reinterprets the shape without moving data.
  Floating-point numbers are idealised as reals: rounding, overflow and NaN are outside the model,
  and so is the device on which a tensor lives (\<open>.cuda()\<close>).
  A value of this type stands for a tensor when \<open>wf_tensor\<close> holds. The accessors
  \<open>at3\<close> and \<open>at4\<close> read a rank-3 or rank-4 tensor at an index inside its shape, and
  \<open>tab3\<close> and \<open>tab4\<close> build a tensor from the function giving each element.
\<close>

record tensor =
  shape :: "nat list"
  data :: "real list"

definition wf_tensor :: "tensor \<Rightarrow> bool" where
  "wf_tensor t = (length (data t) = prod_list (shape t))"

definition idx3 :: "nat \<Rightarrow> nat \<Rightarrow> nat \<Rightarrow> nat \<Rightarrow> nat \<Rightarrow> nat" where
  "idx3 s1 s2 a b c = (a * s1 + b) * s2 + c"

definition idx4 :: "nat \<Rightarrow> nat \<Rightarrow> nat \<Rightarrow> nat \<Rightarrow> nat \<Rightarrow> nat \<Rightarrow> nat \<Rightarrow> nat" where
  "idx4 s1 s2 s3 a b c d = ((a * s1 + b) * s2 + c) * s3 + d"

definition at3 :: "tensor \<Rightarrow> nat \<Rightarrow> nat \<Rightarrow> nat \<Rightarrow> real" where
  "at3 t a b c = (case shape t of [s0, s1, s2] \<Rightarrow> data t ! idx3 s1 s2 a b c | _ \<Rightarrow> 0)"

definition at4 :: "tensor \<Rightarrow> nat \<Rightarrow> nat \<Rightarrow> nat \<Rightarrow> nat \<Rightarrow> real" where
  "at4 t a b c d = (case shape t of [s0, s1, s2, s3] \<Rightarrow> data t ! idx4 s1 s2 s3 a b c d | _ \<Rightarrow> 0)"

definition tab3 :: "nat \<Rightarrow> nat \<Rightarrow> nat \<Rightarrow> (nat \<Rightarrow> nat \<Rightarrow> nat \<Rightarrow> real) \<Rightarrow> tensor" where
  "tab3 s0 s1 s2 f = \<lparr>shape = [s0, s1, s2],
     data = map (\<lambda>i. f (i div (s1 * s2)) (i div s2 mod s1) (i mod s2)) [0..<s0 * s1 * s2]\<rparr>"

definition tab4 :: "nat \<Rightarrow> nat \<Rightarrow> nat \<Rightarrow> nat \<Rightarrow> (nat \<Rightarrow> nat \<Rightarrow> nat \<Rightarrow> nat \<Rightarrow> real) \<Rightarrow> tensor" where
  "tab4 s0 s1 s2 s3 f = \<lparr>shape = [s0, s1, s2, s3],
     data = map (\<lambda>i. f (i div (s1 * s2 * s3)) (i div (s2 * s3) mod s1) (i div s3 mod s2) (i mod s3))
              [0..<s0 * s1 * s2 * s3]\<rparr>"


section \<open>Errors and the operations of the numeric framework\<close>

text \<open>
  Every exception that \<open>forward\<close> can raise is a value: \<open>RuntimeError\<close> for a shape that an
  operation rejects, \<open>IndexError\<close> for an axis that a tensor does not have,
  \<open>AttributeError\<close> for a method call on \<open>None\<close>, \<open>ZeroDivisionError\<close> for the
  Python division \<open>1.0 / math.sqrt(0.0)\<close>. A raise ends the call: \<open>bindE\<close> passes the
  first error through.
\<close>

datatype error = RuntimeError | IndexError | AttributeError | ZeroDivisionError

definition bindE :: "error + 'a \<Rightarrow> ('a \<Rightarrow> error + 'b) \<Rightarrow> error + 'b" where
  "bindE m f = (case m of Inl e \<Rightarrow> Inl e | Inr v \<Rightarrow> f v)"

text \<open>
  \<open>t.size(k)\<close>, and the slice \<open>t[:, :k, :]\<close> of a rank-3 tensor with Python's rule for the
  stop index (a negative stop counts from the end, a stop beyond the axis is the axis).
\<close>

definition tsize :: "tensor \<Rightarrow> nat \<Rightarrow> error + nat" where
  "tsize t k = (if k < length (shape t) then Inr (shape t ! k) else Inl IndexError)"

definition py_stop :: "int \<Rightarrow> nat \<Rightarrow> nat" where
  "py_stop k n = (if k < 0 then nat (int n + k) else min (nat k) n)"

definition slice_dim1 :: "int \<Rightarrow> tensor \<Rightarrow> error + tensor" where
  "slice_dim1 k t =
     (case shape t of
        [s0, s1, s2] \<Rightarrow> Inr (tab3 s0 (py_stop k s1) s2 (at3 t))
      | _ \<Rightarrow> Inl IndexError)"

text \<open>
  \<open>t.view(dims)\<close>: at most one dimension may be \<open>-1\<close> and is then inferred from the number
  of elements; the element count must be kept. The data is unchanged.
\<close>

definition infer_shape :: "int list \<Rightarrow> nat \<Rightarrow> error + nat list" where
  "infer_shape dims n =
     (if list_ex (\<lambda>d. d < - 1) dims then Inl RuntimeError
      else if 1 < length (filter (\<lambda>d. d = - 1) dims) then Inl RuntimeError
      else if list_ex (\<lambda>d. d = - 1) dims then
        (let p = prod_list (map nat (filter (\<lambda>d. d \<noteq> - 1) dims)) in
         if p = 0 then Inl RuntimeError
         else if n mod p \<noteq> 0 then Inl RuntimeError
         else Inr (map (\<lambda>d. if d = - 1 then n div p else nat d) dims))
      else if prod_list (map nat dims) = n then Inr (map nat dims)
      else Inl RuntimeError)"

definition view :: "int list \<Rightarrow> tensor \<Rightarrow> error + tensor" where
  "view dims t =
     (case infer_shape dims (prod_list (shape t)) of
        Inl e \<Rightarrow> Inl e
      | Inr s \<Rightarrow> Inr (t\<lparr>shape := s\<rparr>))"

text \<open>
  A row of a rank-3 tensor along its last axis.
\<close>

definition row3 :: "tensor \<Rightarrow> nat \<Rightarrow> nat \<Rightarrow> real list" where
  "row3 t a b = (case shape t of [s0, s1, s2] \<Rightarrow> map (at3 t a b) [0..<s2] | _ \<Rightarrow> [])"

text \<open>
  Modelled from the spec: the feed-forward block \<open>FCNet([din, dout], None, dropout)\<close> of
  module \<open>model.faster_rcnn.fc\<close>, which is not among the sources. It is a configurable
  stack of linear and dropout transforms with a given output width: a
  transform of the last axis, row by row, that rejects a last axis whose size is not \<open>din\<close>.
  Its weights are a parameter, the function \<open>f\<close>: \<open>f x c\<close> is component \<open>c\<close> of the
  block's output for the input row \<open>x\<close>. Dropout is the identity, as it is in evaluation
  mode, so the block is a function of its input.
\<close>

definition fcnet_apply :: "nat \<Rightarrow> nat \<Rightarrow> (real list \<Rightarrow> nat \<Rightarrow> real) \<Rightarrow> tensor \<Rightarrow> error + tensor" where
  "fcnet_apply din dout f t =
     (case shape t of
        [s0, s1, s2] \<Rightarrow>
          if s2 \<noteq> din then Inl RuntimeError
          else Inr (tab3 s0 s1 dout (\<lambda>a b c. f (row3 t a b) c))
      | _ \<Rightarrow> Inl RuntimeError)"

text \<open>
  \<open>torch.transpose(t, 1, 2)\<close> and \<open>torch.transpose(t, 2, 3)\<close> on rank 4, and
  \<open>torch.matmul\<close> on two tensors of rank 4 or of rank 3 with equal batch axes, as
  \<open>forward\<close> calls them.
\<close>

definition transpose12 :: "tensor \<Rightarrow> error + tensor" where
  "transpose12 t =
     (case shape t of
        [s0, s1, s2, s3] \<Rightarrow> Inr (tab4 s0 s2 s1 s3 (\<lambda>a b c d. at4 t a c b d))
      | _ \<Rightarrow> Inl IndexError)"

definition transpose23 :: "tensor \<Rightarrow> error + tensor" where
  "transpose23 t =
     (case shape t of
        [s0, s1, s2, s3] \<Rightarrow> Inr (tab4 s0 s1 s3 s2 (\<lambda>a b c d. at4 t a b d c))
      | _ \<Rightarrow> Inl IndexError)"

definition matmul4 :: "tensor \<Rightarrow> tensor \<Rightarrow> error + tensor" where
  "matmul4 x y =
     (case shape x of
        [a0, a1, n, k] \<Rightarrow>
          (case shape y of
             [b0, b1, k', m] \<Rightarrow>
               if a0 = b0 \<and> a1 = b1 \<and> k = k'
               then Inr (tab4 a0 a1 n m
                      (\<lambda>a b i j. sum_list (map (\<lambda>d. at4 x a b i d * at4 y a b d j) [0..<k])))
               else Inl RuntimeError
           | _ \<Rightarrow> Inl RuntimeError)
      | _ \<Rightarrow> Inl RuntimeError)"

definition matmul3 :: "tensor \<Rightarrow> tensor \<Rightarrow> error + tensor" where
  "matmul3 x y =
     (case shape x of
        [a0, n, k] \<Rightarrow>
          (case shape y of
             [b0, k', m] \<Rightarrow>
               if a0 = b0 \<and> k = k'
               then Inr (tab3 a0 n m
                      (\<lambda>a i j. sum_list (map (\<lambda>d. at3 x a i d * at3 y a d j) [0..<k])))
               else Inl RuntimeError
           | _ \<Rightarrow> Inl RuntimeError)
      | _ \<Rightarrow> Inl RuntimeError)"

text \<open>
  Elementwise operations. A unary operation maps over the data. A binary operation
  broadcasts: two axes are compatible when they are equal or one of them is 1, and a size-1
  axis is read at index 0. \<open>iadd\<close> is the in-place \<open>+=\<close>, whose result must have the
  shape of its left operand. Operands have rank 4 wherever \<open>forward\<close> broadcasts.
\<close>

definition tmap :: "(real \<Rightarrow> real) \<Rightarrow> tensor \<Rightarrow> tensor" where
  "tmap g t = t\<lparr>data := map g (data t)\<rparr>"

definition bcompat :: "nat \<Rightarrow> nat \<Rightarrow> bool" where
  "bcompat a b = (a = b \<or> a = 1 \<or> b = 1)"

definition bdim :: "nat \<Rightarrow> nat \<Rightarrow> nat" where
  "bdim a b = (if a = 1 then b else a)"

definition bix :: "nat \<Rightarrow> nat \<Rightarrow> nat" where
  "bix s i = (if s = 1 then 0 else i)"

definition bat4 :: "tensor \<Rightarrow> nat \<Rightarrow> nat \<Rightarrow> nat \<Rightarrow> nat \<Rightarrow> real" where
  "bat4 t a b c d =
     (case shape t of
        [s0, s1, s2, s3] \<Rightarrow> at4 t (bix s0 a) (bix s1 b) (bix s2 c) (bix s3 d)
      | _ \<Rightarrow> 0)"

definition bshape4 :: "nat list \<Rightarrow> nat list \<Rightarrow> error + nat list" where
  "bshape4 x y =
     (case x of
        [a0, a1, a2, a3] \<Rightarrow>
          (case y of
             [b0, b1, b2, b3] \<Rightarrow>
               if bcompat a0 b0 \<and> bcompat a1 b1 \<and> bcompat a2 b2 \<and> bcompat a3 b3
               then Inr [bdim a0 b0, bdim a1 b1, bdim a2 b2, bdim a3 b3]
               else Inl RuntimeError
           | _ \<Rightarrow> Inl RuntimeError)
      | _ \<Rightarrow> Inl RuntimeError)"

definition tab4s :: "nat list \<Rightarrow> (nat \<Rightarrow> nat \<Rightarrow> nat \<Rightarrow> nat \<Rightarrow> real) \<Rightarrow> error + tensor" where
  "tab4s s f = (case s of [s0, s1, s2, s3] \<Rightarrow> Inr (tab4 s0 s1 s2 s3 f) | _ \<Rightarrow> Inl RuntimeError)"

definition iadd :: "tensor \<Rightarrow> tensor \<Rightarrow> error + tensor" where
  "iadd self other =
     bindE (bshape4 (shape self) (shape other)) (\<lambda>s.
       if s \<noteq> shape self then Inl RuntimeError
       else tab4s s (\<lambda>a b c d. at4 self a b c d + bat4 other a b c d))"

definition add4 :: "tensor \<Rightarrow> tensor \<Rightarrow> error + tensor" where
  "add4 x y =
     bindE (bshape4 (shape x) (shape y)) (\<lambda>s.
       tab4s s (\<lambda>a b c d. bat4 x a b c d + bat4 y a b c d))"

definition where_gt0 :: "tensor \<Rightarrow> tensor \<Rightarrow> tensor \<Rightarrow> error + tensor" where
  "where_gt0 cond x y =
     bindE (bshape4 (shape cond) (shape x)) (\<lambda>s.
     bindE (bshape4 s (shape y)) (\<lambda>s'.
       tab4s s' (\<lambda>a b c d. if 0 < bat4 cond a b c d then bat4 x a b c d else bat4 y a b c d)))"

text \<open>
  \<open>t.expand(dims)\<close> on rank 4 (\<open>-1\<close> keeps an axis, a size-1 axis may grow),
  \<open>t.unsqueeze(3)\<close> on rank 3, and softmax over axis 3 of a rank-4 tensor.
\<close>

definition expand_ok :: "nat \<Rightarrow> int \<Rightarrow> bool" where
  "expand_ok s t = (t = - 1 \<or> t = int s \<or> (s = 1 \<and> 0 \<le> t))"

definition expand_dim :: "nat \<Rightarrow> int \<Rightarrow> nat" where
  "expand_dim s t = (if t = - 1 then s else nat t)"

definition expand4 :: "int list \<Rightarrow> tensor \<Rightarrow> error + tensor" where
  "expand4 tgt t =
     (case shape t of
        [s0, s1, s2, s3] \<Rightarrow>
          (case tgt of
             [t0, t1, t2, t3] \<Rightarrow>
               if expand_ok s0 t0 \<and> expand_ok s1 t1 \<and> expand_ok s2 t2 \<and> expand_ok s3 t3
               then Inr (tab4 (expand_dim s0 t0) (expand_dim s1 t1) (expand_dim s2 t2)
                          (expand_dim s3 t3) (bat4 t))
               else Inl RuntimeError
           | _ \<Rightarrow> Inl RuntimeError)
      | _ \<Rightarrow> Inl RuntimeError)"

definition unsqueeze3 :: "tensor \<Rightarrow> error + tensor" where
  "unsqueeze3 t =
     (case shape t of
        [s0, s1, s2] \<Rightarrow> Inr (t\<lparr>shape := [s0, s1, s2, 1]\<rparr>)
      | _ \<Rightarrow> Inl IndexError)"

definition softmax3 :: "tensor \<Rightarrow> error + tensor" where
  "softmax3 t =
     (case shape t of
        [s0, s1, s2, s3] \<Rightarrow>
          Inr (tab4 s0 s1 s2 s3
            (\<lambda>a b c d. exp (at4 t a b c d) / sum_list (map (\<lambda>j. exp (at4 t a b c j)) [0..<s3])))
      | _ \<Rightarrow> Inl IndexError)"

text \<open>
  Modelled from the spec: the weight-normalised grouped convolution \<open>linear_out_\<close> with a
  1x1 kernel, a grouped linear mixing transform of the channel vector of each sample, from
  \<open>cin\<close> channels to \<open>cout\<close>, applied to a tensor of shape \<open>(m, cin, 1, 1)\<close>. Its weights
  are a parameter, the function \<open>f\<close>: \<open>f x c\<close> is output channel \<open>c\<close> for the channel
  vector \<open>x\<close>.
\<close>

definition conv_apply :: "nat \<Rightarrow> nat \<Rightarrow> (real list \<Rightarrow> nat \<Rightarrow> real) \<Rightarrow> tensor \<Rightarrow> error + tensor" where
  "conv_apply cin cout f t =
     (case shape t of
        [m, c, h, w] \<Rightarrow>
          if c \<noteq> cin \<or> h \<noteq> 1 \<or> w \<noteq> 1 then Inl RuntimeError
          else Inr (tab4 m cout 1 1 (\<lambda>a b _ _. f (map (\<lambda>i. at4 t a i 0 0) [0..<c]) b))
      | _ \<Rightarrow> Inl RuntimeError)"

section \<open>The layer\<close>

text \<open>
  The attributes that \<open>__init__\<close> stores (source lines 36-55). \<open>fc_dim\<close> is
  \<open>num_heads\<close> and every component of \<open>dim_group\<close> is \<open>int(feat_dim / num_heads)\<close>;
  a layer with \<open>num_heads = 0\<close> cannot be constructed. The field \<open>linear_out_conv\<close> is
  the attribute \<open>linear_out_\<close>.
\<close>

record layer =
  feat_dim :: nat
  nongt_dim :: int
  pos_emb_dim :: int
  num_heads :: nat
  pair_pos_fc1 :: "real list \<Rightarrow> nat \<Rightarrow> real"
  query :: "real list \<Rightarrow> nat \<Rightarrow> real"
  key :: "real list \<Rightarrow> nat \<Rightarrow> real"
  linear_out_conv :: "real list \<Rightarrow> nat \<Rightarrow> real"

definition fc_dim :: "layer \<Rightarrow> nat" where
  "fc_dim l = num_heads l"

definition dim_group :: "layer \<Rightarrow> nat" where
  "dim_group l = feat_dim l div num_heads l"

text \<open>
  Source line 71: \<open>nongt_dim = self.nongt_dim if self.nongt_dim < num_rois else num_rois\<close>.
\<close>

definition eff_nongt :: "layer \<Rightarrow> nat \<Rightarrow> int" where
  "eff_nongt l nr = (if nongt_dim l < int nr then nongt_dim l else int nr)"

section \<open>The forward computation\<close>

text \<open>
  The local variables of \<open>forward\<close> that outlive a stage. \<open>weighted_aff\<close> is the working
  score tensor of shape \<open>(batch, num_rois, heads, nongt)\<close>; after the softmax it holds the
  attention weights.
\<close>

record locals =
  batch_size :: nat
  num_rois :: nat
  nongt :: int
  v_data :: tensor
  weighted_aff :: tensor

text \<open>
  Source lines 68-106: query and key projections, scaled dot product per head.
\<close>

definition content_stage :: "layer \<Rightarrow> tensor \<Rightarrow> error + locals" where
  "content_stage l roi_feat =
     bindE (tsize roi_feat 0) (\<lambda>bs.
     bindE (tsize roi_feat 1) (\<lambda>nr.
     let ng = eff_nongt l nr in
     bindE (slice_dim1 ng roi_feat) (\<lambda>nongt_roi_feat.
     bindE (fcnet_apply (feat_dim l) (feat_dim l) (query l) roi_feat) (\<lambda>q_data.
     bindE (view [int bs, int nr, int (num_heads l), int (dim_group l)] q_data) (\<lambda>q_data_batch.
     bindE (transpose12 q_data_batch) (\<lambda>q_data_batch.
     bindE (fcnet_apply (feat_dim l) (feat_dim l) (key l) nongt_roi_feat) (\<lambda>k_data.
     bindE (view [int bs, ng, int (num_heads l), int (dim_group l)] k_data) (\<lambda>k_data_batch.
     bindE (transpose12 k_data_batch) (\<lambda>k_data_batch.
     bindE (transpose23 k_data_batch) (\<lambda>k_t.
     bindE (matmul4 q_data_batch k_t) (\<lambda>aff.
     bindE (if dim_group l = 0 then Inl ZeroDivisionError
            else Inr (tmap (\<lambda>x. (1 / sqrt (real (dim_group l))) * x) aff)) (\<lambda>aff_scale.
     bindE (transpose12 aff_scale) (\<lambda>aff_scale.
       Inr \<lparr>batch_size = bs, num_rois = nr, nongt = ng,
            v_data = nongt_roi_feat, weighted_aff = aff_scale\<rparr>)))))))))))))"

text \<open>
  Source lines 110-130, the body of \<open>if position_embedding is not None and self.pos_emb_dim > 0\<close>.
  The conversion \<open>.float()\<close> is the identity on reals, and the maximum with the one-element
  tensor \<open>thresh\<close> is the maximum of each element with \<open>1e-6\<close>.
\<close>

definition position_stage :: "layer \<Rightarrow> tensor \<Rightarrow> locals \<Rightarrow> error + locals" where
  "position_stage l position_embedding st =
     bindE (view [int (batch_size st), - 1, pos_emb_dim l] position_embedding)
       (\<lambda>position_embedding_reshape.
     bindE (fcnet_apply (nat (pos_emb_dim l)) (fc_dim l) (pair_pos_fc1 l) position_embedding_reshape)
       (\<lambda>position_feat_1.
     let position_feat_1_relu = tmap (max 0) position_feat_1 in
     bindE (view [int (batch_size st), - 1, nongt st, int (fc_dim l)] position_feat_1_relu)
       (\<lambda>aff_weight.
     bindE (transpose23 aff_weight) (\<lambda>aff_weight.
     let threshold_aff = tmap (\<lambda>x. max x (1 / 10 ^ 6)) aff_weight in
     bindE (iadd (weighted_aff st) (tmap ln threshold_aff)) (\<lambda>w.
       Inr (st\<lparr>weighted_aff := w\<rparr>))))))"

text \<open>
  Source lines 134-149, the body of \<open>if adj_matrix is not None\<close>. The constant is \<open>-9e15\<close>.
\<close>

definition sentinel :: real where
  "sentinel = - (9 * 10 ^ 15)"

definition adjacency_stage :: "tensor \<Rightarrow> tensor option \<Rightarrow> locals \<Rightarrow> error + locals" where
  "adjacency_stage adj_matrix label_biases_att st =
     bindE (transpose23 (weighted_aff st)) (\<lambda>weighted_aff_transposed.
     let zero_vec = tmap (\<lambda>x. sentinel * 1) weighted_aff_transposed in
     bindE (tsize adj_matrix 0) (\<lambda>d0.
     bindE (tsize adj_matrix 1) (\<lambda>d1.
     bindE (tsize adj_matrix 2) (\<lambda>d2.
     bindE (view [int d0, int d1, int d2, 1] adj_matrix) (\<lambda>adj_matrix.
     bindE (expand4 [- 1, - 1, - 1, int (last (shape weighted_aff_transposed))] adj_matrix)
       (\<lambda>adj_matrix_expand.
     bindE (where_gt0 adj_matrix_expand weighted_aff_transposed zero_vec) (\<lambda>weighted_aff_masked.
     bindE (case label_biases_att of
              None \<Rightarrow> Inl AttributeError
            | Some lb \<Rightarrow> unsqueeze3 lb) (\<lambda>lb.
     bindE (add4 weighted_aff_masked lb) (\<lambda>weighted_aff_masked.
     bindE (transpose23 weighted_aff_masked) (\<lambda>w.
       Inr (st\<lparr>weighted_aff := w\<rparr>)))))))))))"

text \<open>
  The two guards (source lines 108 and 133), the softmax (line 152), the aggregation and the
  output projection (lines 155-166), and \<open>forward\<close> itself.
\<close>

definition score_stage ::
  "layer \<Rightarrow> tensor \<Rightarrow> tensor option \<Rightarrow> tensor option \<Rightarrow> tensor option \<Rightarrow> error + locals" where
  "score_stage l roi_feat adj_matrix position_embedding label_biases_att =
     bindE (content_stage l roi_feat) (\<lambda>st.
     bindE (case position_embedding of
              Some pe \<Rightarrow> if 0 < pos_emb_dim l then position_stage l pe st else Inr st
            | None \<Rightarrow> Inr st) (\<lambda>st.
       case adj_matrix of
         Some adj \<Rightarrow> adjacency_stage adj label_biases_att st
       | None \<Rightarrow> Inr st))"

definition softmax_stage ::
  "layer \<Rightarrow> tensor \<Rightarrow> tensor option \<Rightarrow> tensor option \<Rightarrow> tensor option \<Rightarrow> error + locals" where
  "softmax_stage l roi_feat adj_matrix position_embedding label_biases_att =
     bindE (score_stage l roi_feat adj_matrix position_embedding label_biases_att) (\<lambda>st.
     bindE (softmax3 (weighted_aff st)) (\<lambda>aff_softmax.
       Inr (st\<lparr>weighted_aff := aff_softmax\<rparr>)))"

definition aggregate :: "layer \<Rightarrow> locals \<Rightarrow> error + tensor" where
  "aggregate l st =
     bindE (view [int (batch_size st), - 1, nongt st] (weighted_aff st)) (\<lambda>aff_softmax_reshape.
     bindE (matmul3 aff_softmax_reshape (v_data st)) (\<lambda>output_t.
     bindE (view [- 1, int (fc_dim l * feat_dim l), 1, 1] output_t) (\<lambda>output_t.
     bindE (conv_apply (fc_dim l * feat_dim l) (feat_dim l) (linear_out_conv l) output_t) (\<lambda>linear_out.
       view [int (batch_size st), int (num_rois st), int (feat_dim l)] linear_out))))"

definition forward ::
  "layer \<Rightarrow> tensor \<Rightarrow> tensor option \<Rightarrow> tensor option \<Rightarrow> tensor option \<Rightarrow> error + tensor" where
  "forward l roi_feat adj_matrix position_embedding label_biases_att =
     bindE (softmax_stage l roi_feat adj_matrix position_embedding label_biases_att) (aggregate l)"

section \<open>Well-shaped calls and the closed form of each stage\<close>

text \<open>
  \<open>wf_layer\<close> and \<open>valid_call\<close> collect what the docstrings of \<open>__init__\<close> and
  \<open>forward\<close> ask of the hyperparameters and of the shapes of the arguments, with
  \<open>M = nat (eff_nongt l N)\<close> neighbours. A position embedding may be given to a layer
  with \<open>pos_emb_dim \<le> 0\<close>; the guard of line 108 skips it. The functions
  \<open>content_score\<close>, \<open>pos_term\<close>, \<open>score_fn\<close>, \<open>attn_fn\<close> and \<open>out_fn\<close> give one
  element of the tensor that each stage returns; the lemmas of the next sections prove it.
\<close>

definition row4 :: "tensor \<Rightarrow> nat \<Rightarrow> nat \<Rightarrow> nat \<Rightarrow> real list" where
  "row4 t a b c = (case shape t of [s0, s1, s2, s3] \<Rightarrow> map (at4 t a b c) [0..<s3] | _ \<Rightarrow> [])"

definition wf_layer :: "layer \<Rightarrow> bool" where
  "wf_layer l =
     (0 < num_heads l \<and> 0 < feat_dim l \<and> num_heads l dvd feat_dim l \<and> 0 < nongt_dim l)"

definition content_score :: "layer \<Rightarrow> tensor \<Rightarrow> nat \<Rightarrow> nat \<Rightarrow> nat \<Rightarrow> nat \<Rightarrow> real" where
  "content_score l roi b i h j =
     1 / sqrt (real (dim_group l)) *
     sum_list (map (\<lambda>d. query l (row3 roi b i) (h * dim_group l + d) *
                         key l (row3 roi b j) (h * dim_group l + d)) [0..<dim_group l])"

definition pos_term :: "layer \<Rightarrow> tensor \<Rightarrow> nat \<Rightarrow> nat \<Rightarrow> nat \<Rightarrow> nat \<Rightarrow> real" where
  "pos_term l pe b i h j = ln (max (max 0 (pair_pos_fc1 l (row4 pe b i j) h)) (1 / 10 ^ 6))"


definition valid_opt3 :: "nat \<Rightarrow> nat \<Rightarrow> nat \<Rightarrow> tensor option \<Rightarrow> bool" where
  "valid_opt3 B N M t = (case t of None \<Rightarrow> True | Some a \<Rightarrow> shape a = [B, N, M] \<and> wf_tensor a)"

definition valid_pos :: "layer \<Rightarrow> nat \<Rightarrow> nat \<Rightarrow> nat \<Rightarrow> tensor option \<Rightarrow> bool" where
  "valid_pos l B N M pe =
     (case pe of
        None \<Rightarrow> True
      | Some p \<Rightarrow> pos_emb_dim l \<le> 0 \<or> (shape p = [B, N, M, nat (pos_emb_dim l)] \<and> wf_tensor p))"

definition valid_call ::
  "layer \<Rightarrow> nat \<Rightarrow> nat \<Rightarrow> tensor \<Rightarrow> tensor option \<Rightarrow> tensor option \<Rightarrow> tensor option \<Rightarrow> bool" where
  "valid_call l B N roi adj pe lb =
     (wf_layer l \<and> shape roi = [B, N, feat_dim l] \<and> wf_tensor roi \<and> 0 < B \<and> 0 < N \<and>
      valid_opt3 B N (nat (eff_nongt l N)) adj \<and>
      valid_pos l B N (nat (eff_nongt l N)) pe \<and>
      (adj \<noteq> None \<longrightarrow> lb \<noteq> None \<and> valid_opt3 B N (nat (eff_nongt l N)) lb))"

definition score_fn ::
  "layer \<Rightarrow> tensor \<Rightarrow> tensor option \<Rightarrow> tensor option \<Rightarrow> tensor option \<Rightarrow>
   nat \<Rightarrow> nat \<Rightarrow> nat \<Rightarrow> nat \<Rightarrow> real" where
  "score_fn l roi adj pe lb b i h j =
     (let s = content_score l roi b i h j +
              (case pe of None \<Rightarrow> 0 | Some p \<Rightarrow> if 0 < pos_emb_dim l then pos_term l p b i h j else 0)
      in case adj of
           None \<Rightarrow> s
         | Some a \<Rightarrow> (if 0 < at3 a b i j then s else sentinel) +
                     (case lb of None \<Rightarrow> 0 | Some t \<Rightarrow> at3 t b i j))"

definition attn_fn ::
  "layer \<Rightarrow> tensor \<Rightarrow> tensor option \<Rightarrow> tensor option \<Rightarrow> tensor option \<Rightarrow>
   nat \<Rightarrow> nat \<Rightarrow> nat \<Rightarrow> nat \<Rightarrow> nat \<Rightarrow> real" where
  "attn_fn l roi adj pe lb M b i h j =
     exp (score_fn l roi adj pe lb b i h j) /
     sum_list (map (\<lambda>k. exp (score_fn l roi adj pe lb b i h k)) [0..<M])"

definition out_fn ::
  "layer \<Rightarrow> tensor \<Rightarrow> tensor option \<Rightarrow> tensor option \<Rightarrow> tensor option \<Rightarrow>
   nat \<Rightarrow> nat \<Rightarrow> nat \<Rightarrow> nat \<Rightarrow> real" where
  "out_fn l roi adj pe lb M b i c =
     linear_out_conv l
       (map (\<lambda>ch. sum_list (map (\<lambda>j. attn_fn l roi adj pe lb M b i (ch div feat_dim l) j *
                                      at3 roi b j (ch mod feat_dim l)) [0..<M]))
          [0..<num_heads l * feat_dim l]) c"

section \<open>Concrete layers and inputs\<close>

text \<open>
  Small instances on which the theorems below are evaluated: one head over one feature, with
  projections that add up their input row.
\<close>

definition ex_layer :: "int \<Rightarrow> int \<Rightarrow> layer" where
  "ex_layer ng pd =
     \<lparr>feat_dim = 1, nongt_dim = ng, pos_emb_dim = pd, num_heads = 1,
      pair_pos_fc1 = (\<lambda>x c. sum_list x), query = (\<lambda>x c. sum_list x),
      key = (\<lambda>x c. sum_list x), linear_out_conv = (\<lambda>x c. sum_list x)\<rparr>"

definition ex_odd_layer :: layer where
  "ex_odd_layer =
     \<lparr>feat_dim = 3, nongt_dim = 1, pos_emb_dim = - 1, num_heads = 2,
      pair_pos_fc1 = (\<lambda>x c. sum_list x), query = (\<lambda>x c. sum_list x),
      key = (\<lambda>x c. sum_list x), linear_out_conv = (\<lambda>x c. sum_list x)\<rparr>"

definition ex_tensor :: "nat list \<Rightarrow> real list \<Rightarrow> tensor" where
  "ex_tensor s xs = \<lparr>shape = s, data = xs\<rparr>"


section \<open>Index arithmetic and tabulated tensors\<close>

lemma div_mult_swap: "i div (s1 * s2) = i div s2 div (s1::nat)"
  by (metis div_mult2_eq mult.commute)

lemma div_mult_swap3: "i div (s1 * s2 * s3) = i div s3 div s2 div (s1::nat)"
  by (metis div_mult2_eq mult.commute)

lemma idx3_less: "a < s0 \<Longrightarrow> b < s1 \<Longrightarrow> c < s2 \<Longrightarrow> idx3 s1 s2 a b c < s0 * s1 * s2"
proof -
  assume a: "a < s0" and b: "b < s1" and c: "c < s2"
  have "a * s1 + b < s0 * s1"
  proof -
    have "a * s1 + b < a * s1 + s1" using b by simp
    also have "\<dots> = (Suc a) * s1" by simp
    also have "\<dots> \<le> s0 * s1" using a by (intro mult_le_mono1) simp
    finally show ?thesis .
  qed
  then have "(a * s1 + b) * s2 + c < (a * s1 + b) * s2 + s2" using c by simp
  also have "\<dots> = Suc (a * s1 + b) * s2" by simp
  also have "\<dots> \<le> (s0 * s1) * s2" using \<open>a * s1 + b < s0 * s1\<close> by (intro mult_le_mono1) simp
  finally show ?thesis by (simp add: idx3_def)
qed

lemma idx4_idx3: "idx4 s1 s2 s3 a b c d = idx3 s1 s2 a b c * s3 + d"
  by (simp add: idx4_def idx3_def)

lemma idx4_less:
  assumes "a < s0" "b < s1" "c < s2" "d < s3"
  shows "idx4 s1 s2 s3 a b c d < s0 * s1 * s2 * s3"
proof -
  have "idx3 s1 s2 a b c < s0 * s1 * s2" using assms by (intro idx3_less)
  then have "idx3 s1 s2 a b c * s3 + d < idx3 s1 s2 a b c * s3 + s3" using assms by simp
  also have "\<dots> = Suc (idx3 s1 s2 a b c) * s3" by simp
  also have "\<dots> \<le> (s0 * s1 * s2) * s3"
    using \<open>idx3 s1 s2 a b c < s0 * s1 * s2\<close> by (intro mult_le_mono1) simp
  finally show ?thesis by (simp add: idx4_idx3)
qed

lemma idx3_mod: "c < s2 \<Longrightarrow> idx3 s1 s2 a b c mod s2 = c"
  by (simp add: idx3_def)

lemma idx3_div: "c < s2 \<Longrightarrow> idx3 s1 s2 a b c div s2 = a * s1 + b"
  by (simp add: idx3_def)

lemma idx3_div_mod: "b < s1 \<Longrightarrow> c < s2 \<Longrightarrow> idx3 s1 s2 a b c div s2 mod s1 = b"
  by (simp add: idx3_div)

lemma idx3_div2: "b < s1 \<Longrightarrow> c < s2 \<Longrightarrow> idx3 s1 s2 a b c div (s1 * s2) = a"
proof -
  assume b: "b < s1" and c: "c < s2"
  have "idx3 s1 s2 a b c div (s1 * s2) = idx3 s1 s2 a b c div s2 div s1"
    by (rule div_mult_swap)
  also have "\<dots> = (a * s1 + b) div s1" using c by (simp add: idx3_div)
  also have "\<dots> = a" using b by simp
  finally show ?thesis .
qed

lemma idx3_decomp:
  "idx3 s1 s2 (i div (s1 * s2)) (i div s2 mod s1) (i mod s2) = i"
proof -
  have "i div (s1 * s2) = i div s2 div s1" by (rule div_mult_swap)
  then show ?thesis by (simp add: idx3_def)
qed

lemma at3_tab3:
  assumes "a < s0" "b < s1" "c < s2"
  shows "at3 (tab3 s0 s1 s2 f) a b c = f a b c"
  using assms idx3_less[OF assms]
  by (simp add: at3_def tab3_def idx3_mod idx3_div_mod idx3_div2)

lemma idx4_mod: "d < s3 \<Longrightarrow> idx4 s1 s2 s3 a b c d mod s3 = d"
  by (simp add: idx4_def)

lemma idx4_div: "d < s3 \<Longrightarrow> idx4 s1 s2 s3 a b c d div s3 = idx3 s1 s2 a b c"
  by (simp add: idx4_def idx3_def)

lemma idx4_div2: "c < s2 \<Longrightarrow> d < s3 \<Longrightarrow> idx4 s1 s2 s3 a b c d div (s2 * s3) = a * s1 + b"
proof -
  assume c: "c < s2" and d: "d < s3"
  have "idx4 s1 s2 s3 a b c d div (s2 * s3) = idx4 s1 s2 s3 a b c d div s3 div s2"
    by (rule div_mult_swap)
  also have "\<dots> = a * s1 + b" using c d by (simp add: idx4_div idx3_div)
  finally show ?thesis .
qed

lemma idx4_div3: "b < s1 \<Longrightarrow> c < s2 \<Longrightarrow> d < s3 \<Longrightarrow> idx4 s1 s2 s3 a b c d div (s1 * s2 * s3) = a"
proof -
  assume b: "b < s1" and c: "c < s2" and d: "d < s3"
  have "idx4 s1 s2 s3 a b c d div (s1 * s2 * s3) = idx4 s1 s2 s3 a b c d div (s2 * s3) div s1"
    by (simp add: div_mult_swap mult.assoc)
  also have "\<dots> = a" using b c d by (simp add: idx4_div2)
  finally show ?thesis .
qed

lemma idx4_decomp:
  "idx4 s1 s2 s3 (i div (s1 * s2 * s3)) (i div (s2 * s3) mod s1) (i div s3 mod s2) (i mod s3) = i"
proof -
  have 1: "i div (s2 * s3) = i div s3 div s2" by (rule div_mult_swap)
  have 2: "i div (s1 * s2 * s3) = i div s3 div s2 div s1" by (rule div_mult_swap3)
  show ?thesis unfolding 1 2 by (simp add: idx4_def)
qed

lemma at4_tab4:
  assumes "a < s0" "b < s1" "c < s2" "d < s3"
  shows "at4 (tab4 s0 s1 s2 s3 f) a b c d = f a b c d"
  using assms idx4_less[OF assms]
  by (simp add: at4_def tab4_def idx4_mod idx4_div idx3_mod idx3_div idx4_div2 idx4_div3)

lemma shape_tab3 [simp]: "shape (tab3 s0 s1 s2 f) = [s0, s1, s2]" by (simp add: tab3_def)
lemma shape_tab4 [simp]: "shape (tab4 s0 s1 s2 s3 f) = [s0, s1, s2, s3]" by (simp add: tab4_def)
lemma wf_tab3 [simp]: "wf_tensor (tab3 s0 s1 s2 f)" by (simp add: tab3_def wf_tensor_def)
lemma wf_tab4 [simp]: "wf_tensor (tab4 s0 s1 s2 s3 f)" by (simp add: tab4_def wf_tensor_def)

lemma div_bound3: "i < s0 * s1 * s2 \<Longrightarrow> i div (s1 * s2) < (s0::nat)"
  by (simp add: less_mult_imp_div_less mult.assoc)

lemma tab3_cong:
  assumes "\<And>a b c. a < s0 \<Longrightarrow> b < s1 \<Longrightarrow> c < s2 \<Longrightarrow> f a b c = g a b c"
  shows "tab3 s0 s1 s2 f = tab3 s0 s1 s2 g"
proof -
  have "f (i div (s1 * s2)) (i div s2 mod s1) (i mod s2) = g (i div (s1 * s2)) (i div s2 mod s1) (i mod s2)"
    if "i < s0 * s1 * s2" for i
  proof -
    from that have p: "0 < s1" "0 < s2" by (auto intro: Nat.gr0I)
    show ?thesis using that p by (intro assms) (simp_all add: div_bound3)
  qed
  then show ?thesis by (simp add: tab3_def)
qed

lemma div_bound4: "i < s0 * s1 * s2 * s3 \<Longrightarrow> i div (s1 * s2 * s3) < (s0::nat)"
  by (simp add: less_mult_imp_div_less mult.assoc)

lemma tab4_cong:
  assumes "\<And>a b c d. a < s0 \<Longrightarrow> b < s1 \<Longrightarrow> c < s2 \<Longrightarrow> d < s3 \<Longrightarrow> f a b c d = g a b c d"
  shows "tab4 s0 s1 s2 s3 f = tab4 s0 s1 s2 s3 g"
proof -
  have "f (i div (s1 * s2 * s3)) (i div (s2 * s3) mod s1) (i div s3 mod s2) (i mod s3)
      = g (i div (s1 * s2 * s3)) (i div (s2 * s3) mod s1) (i div s3 mod s2) (i mod s3)"
    if "i < s0 * s1 * s2 * s3" for i
  proof -
    from that have p: "0 < s1" "0 < s2" "0 < s3" by (auto intro: Nat.gr0I)
    show ?thesis using that p by (intro assms) (simp_all add: div_bound4)
  qed
  then show ?thesis by (simp add: tab4_def)
qed

lemma tensor_tab3:
  assumes "shape t = [s0, s1, s2]" "wf_tensor t"
  shows "t = tab3 s0 s1 s2 (at3 t)"
proof -
  have "data t = map (\<lambda>i. at3 t (i div (s1 * s2)) (i div s2 mod s1) (i mod s2)) [0..<s0 * s1 * s2]"
    using assms by (intro nth_equalityI) (simp_all add: wf_tensor_def at3_def idx3_decomp)
  then have "data t = data (tab3 s0 s1 s2 (at3 t))" by (simp add: tab3_def)
  moreover have "shape t = shape (tab3 s0 s1 s2 (at3 t))" using assms by simp
  ultimately show ?thesis by simp
qed

lemma tensor_tab4:
  assumes "shape t = [s0, s1, s2, s3]" "wf_tensor t"
  shows "t = tab4 s0 s1 s2 s3 (at4 t)"
proof -
  have "data t = map (\<lambda>i. at4 t (i div (s1 * s2 * s3)) (i div (s2 * s3) mod s1) (i div s3 mod s2) (i mod s3))
      [0..<s0 * s1 * s2 * s3]"
    using assms by (intro nth_equalityI) (simp_all add: wf_tensor_def at4_def idx4_decomp)
  then have "data t = data (tab4 s0 s1 s2 s3 (at4 t))" by (simp add: tab4_def)
  moreover have "shape t = shape (tab4 s0 s1 s2 s3 (at4 t))" using assms by simp
  ultimately show ?thesis by simp
qed

lemma bindE_Inr [simp]: "bindE (Inr v) f = f v" by (simp add: bindE_def)
lemma bindE_Inl [simp]: "bindE (Inl e) f = Inl e" by (simp add: bindE_def)

lemma transpose12_tab4:
  "transpose12 (tab4 s0 s1 s2 s3 f) = Inr (tab4 s0 s2 s1 s3 (\<lambda>a b c d. f a c b d))"
  by (simp add: transpose12_def at4_tab4 cong: tab4_cong)

lemma transpose23_tab4:
  "transpose23 (tab4 s0 s1 s2 s3 f) = Inr (tab4 s0 s1 s3 s2 (\<lambda>a b c d. f a b d c))"
  by (simp add: transpose23_def at4_tab4 cong: tab4_cong)

lemma tmap_tab4: "tmap g (tab4 s0 s1 s2 s3 f) = tab4 s0 s1 s2 s3 (\<lambda>a b c d. g (f a b c d))"
  by (simp add: tmap_def tab4_def comp_def)

lemma tmap_tab3: "tmap g (tab3 s0 s1 s2 f) = tab3 s0 s1 s2 (\<lambda>a b c. g (f a b c))"
  by (simp add: tmap_def tab3_def comp_def)

lemma sum_list_upt_cong:
  "(\<And>i. i < n \<Longrightarrow> f i = g i) \<Longrightarrow> sum_list (map f [0..<n]) = sum_list (map g [0..<n])"
  by (rule arg_cong[where f = sum_list]) simp

lemma matmul4_tab4:
  "matmul4 (tab4 s0 s1 n k f) (tab4 s0 s1 k m g) =
     Inr (tab4 s0 s1 n m (\<lambda>a b i j. sum_list (map (\<lambda>d. f a b i d * g a b d j) [0..<k])))"
  unfolding matmul4_def
  by (simp, intro tab4_cong sum_list_upt_cong) (simp add: at4_tab4)

lemma matmul3_tab3:
  "matmul3 (tab3 s0 n k f) (tab3 s0 k m g) =
     Inr (tab3 s0 n m (\<lambda>a i j. sum_list (map (\<lambda>d. f a i d * g a d j) [0..<k])))"
  unfolding matmul3_def
  by (simp, intro tab3_cong sum_list_upt_cong) (simp add: at3_tab3)

lemma softmax3_tab4:
  "softmax3 (tab4 s0 s1 s2 s3 f) =
     Inr (tab4 s0 s1 s2 s3
       (\<lambda>a b c d. exp (f a b c d) / sum_list (map (\<lambda>j. exp (f a b c j)) [0..<s3])))"
  unfolding softmax3_def
proof (simp, intro tab4_cong)
  fix a b c d assume h: "a < s0" "b < s1" "c < s2" "d < s3"
  have "sum_list (map (\<lambda>j. exp (at4 (tab4 s0 s1 s2 s3 f) a b c j)) [0..<s3])
      = sum_list (map (\<lambda>j. exp (f a b c j)) [0..<s3])"
    using h by (intro sum_list_upt_cong) (simp add: at4_tab4)
  then show "exp (at4 (tab4 s0 s1 s2 s3 f) a b c d) /
         sum_list (map (\<lambda>j. exp (at4 (tab4 s0 s1 s2 s3 f) a b c j)) [0..<s3]) =
         exp (f a b c d) / sum_list (map (\<lambda>j. exp (f a b c j)) [0..<s3])"
    using h by (simp add: at4_tab4)
qed

lemma row3_tab3: "a < s0 \<Longrightarrow> b < s1 \<Longrightarrow> row3 (tab3 s0 s1 s2 f) a b = map (f a b) [0..<s2]"
  by (simp add: row3_def at3_tab3)

lemma fcnet_apply_tab3:
  "fcnet_apply din dout g (tab3 s0 s1 din f) =
     Inr (tab3 s0 s1 dout (\<lambda>a b c. g (map (f a b) [0..<din]) c))"
  unfolding fcnet_apply_def
  by (simp, intro tab3_cong) (simp add: row3_tab3)

lemma map_at4_tab4:
  "a < s0 \<Longrightarrow> c < s2 \<Longrightarrow> d < s3 \<Longrightarrow>
   map (\<lambda>i. at4 (tab4 s0 s1 s2 s3 f) a i c d) [0..<s1] = map (\<lambda>i. f a i c d) [0..<s1]"
  by (simp add: at4_tab4)

lemma conv_apply_tab4:
  "conv_apply cin cout g (tab4 m cin (Suc 0) (Suc 0) f) =
     Inr (tab4 m cout (Suc 0) (Suc 0) (\<lambda>a b c d. g (map (\<lambda>i. f a i 0 0) [0..<cin]) b))"
  unfolding conv_apply_def
  by (simp, intro tab4_cong) (simp add: map_at4_tab4)

lemma slice_dim1_tab3:
  "m \<le> s1 \<Longrightarrow> slice_dim1 (int m) (tab3 s0 s1 s2 f) = Inr (tab3 s0 m s2 f)"
  unfolding slice_dim1_def
  by (simp add: py_stop_def, intro tab3_cong) (simp add: at3_tab3)

lemma bat4_tab4:
  "a < s0 \<Longrightarrow> b < s1 \<Longrightarrow> c < s2 \<Longrightarrow> d < s3 \<Longrightarrow> bat4 (tab4 s0 s1 s2 s3 f) a b c d = f a b c d"
  by (auto simp: bat4_def bix_def at4_tab4)

lemma bat4_tab4_last1:
  "a < s0 \<Longrightarrow> b < s1 \<Longrightarrow> c < s2 \<Longrightarrow> bat4 (tab4 s0 s1 s2 (Suc 0) f) a b c d = f a b c 0"
  by (auto simp: bat4_def bix_def at4_tab4)

lemma bshape4_same [simp]: "bshape4 [s0, s1, s2, s3] [s0, s1, s2, s3] = Inr [s0, s1, s2, s3]"
  by (simp add: bshape4_def bcompat_def bdim_def)

lemma bshape4_last1 [simp]: "bshape4 [s0, s1, s2, s3] [s0, s1, s2, Suc 0] = Inr [s0, s1, s2, s3]"
  by (simp add: bshape4_def bcompat_def bdim_def)

lemma iadd_tab4:
  "iadd (tab4 s0 s1 s2 s3 f) (tab4 s0 s1 s2 s3 g) =
     Inr (tab4 s0 s1 s2 s3 (\<lambda>a b c d. f a b c d + g a b c d))"
  unfolding iadd_def tab4s_def
  by (simp, intro tab4_cong) (simp add: at4_tab4 bat4_tab4)

lemma add4_tab4_last1:
  "add4 (tab4 s0 s1 s2 s3 f) (tab4 s0 s1 s2 (Suc 0) g) =
     Inr (tab4 s0 s1 s2 s3 (\<lambda>a b c d. f a b c d + g a b c 0))"
  unfolding add4_def tab4s_def
  by (simp, intro tab4_cong) (simp add: bat4_tab4 bat4_tab4_last1)

lemma where_gt0_tab4:
  "where_gt0 (tab4 s0 s1 s2 s3 c) (tab4 s0 s1 s2 s3 f) (tab4 s0 s1 s2 s3 g) =
     Inr (tab4 s0 s1 s2 s3 (\<lambda>a b c' d. if 0 < c a b c' d then f a b c' d else g a b c' d))"
  unfolding where_gt0_def tab4s_def
  by (simp, intro tab4_cong) (simp add: bat4_tab4)

lemma expand4_tab4_last1:
  "expand4 [- 1, - 1, - 1, int s3] (tab4 s0 s1 s2 (Suc 0) f) =
     Inr (tab4 s0 s1 s2 s3 (\<lambda>a b c d. f a b c 0))"
  unfolding expand4_def
  by (simp add: expand_ok_def expand_dim_def, intro tab4_cong) (simp add: bat4_tab4_last1)

lemma reshape_tab3_eq:
  assumes "length (data t) = s0 * s1 * s2"
    and "\<And>a b c. a < s0 \<Longrightarrow> b < s1 \<Longrightarrow> c < s2 \<Longrightarrow> data t ! idx3 s1 s2 a b c = f a b c"
  shows "t\<lparr>shape := [s0, s1, s2]\<rparr> = tab3 s0 s1 s2 f"
proof -
  let ?t = "t\<lparr>shape := [s0, s1, s2]\<rparr>"
  have "?t = tab3 s0 s1 s2 (at3 ?t)"
    using assms(1) by (intro tensor_tab3) (simp_all add: wf_tensor_def)
  also have "\<dots> = tab3 s0 s1 s2 f"
    by (intro tab3_cong) (simp add: at3_def assms(2))
  finally show ?thesis .
qed

lemma reshape_tab4_eq:
  assumes "length (data t) = s0 * s1 * s2 * s3"
    and "\<And>a b c d. a < s0 \<Longrightarrow> b < s1 \<Longrightarrow> c < s2 \<Longrightarrow> d < s3 \<Longrightarrow>
           data t ! idx4 s1 s2 s3 a b c d = f a b c d"
  shows "t\<lparr>shape := [s0, s1, s2, s3]\<rparr> = tab4 s0 s1 s2 s3 f"
proof -
  let ?t = "t\<lparr>shape := [s0, s1, s2, s3]\<rparr>"
  have "?t = tab4 s0 s1 s2 s3 (at4 ?t)"
    using assms(1) by (intro tensor_tab4) (simp_all add: wf_tensor_def)
  also have "\<dots> = tab4 s0 s1 s2 s3 f"
    by (intro tab4_cong) (simp add: at4_def assms(2))
  finally show ?thesis .
qed

lemma data_tab3:
  "a < s0 \<Longrightarrow> b < s1 \<Longrightarrow> c < s2 \<Longrightarrow> data (tab3 s0 s1 s2 f) ! idx3 s1 s2 a b c = f a b c"
  using at3_tab3[of a s0 b s1 c s2 f] by (simp add: at3_def)

lemma data_tab4:
  "a < s0 \<Longrightarrow> b < s1 \<Longrightarrow> c < s2 \<Longrightarrow> d < s3 \<Longrightarrow>
   data (tab4 s0 s1 s2 s3 f) ! idx4 s1 s2 s3 a b c d = f a b c d"
  using at4_tab4[of a s0 b s1 c s2 d s3 f] by (simp add: at4_def)

lemma length_data_tab3 [simp]: "length (data (tab3 s0 s1 s2 f)) = s0 * s1 * s2"
  by (simp add: tab3_def)

lemma length_data_tab4 [simp]: "length (data (tab4 s0 s1 s2 s3 f)) = s0 * s1 * s2 * s3"
  by (simp add: tab4_def)

lemma lin2_less: "(h::nat) < H \<Longrightarrow> d < D \<Longrightarrow> h * D + d < H * D"
proof -
  assume h: "h < H" and d: "d < D"
  have "h * D + d < h * D + D" using d by simp
  also have "\<dots> = Suc h * D" by simp
  also have "\<dots> \<le> H * D" using h by (intro mult_le_mono1) simp
  finally show ?thesis .
qed

lemma infer_shape_plain4:
  "n = a * b * c * d \<Longrightarrow> infer_shape [int a, int b, int c, int d] n = Inr [a, b, c, d]"
  by (simp add: infer_shape_def)

lemma infer_shape_plain3:
  "n = a * b * c \<Longrightarrow> infer_shape [int a, int b, int c] n = Inr [a, b, c]"
  by (simp add: infer_shape_def)

lemma infer_shape_mid3:
  "0 < a \<Longrightarrow> 0 < c \<Longrightarrow> n = a * m * c \<Longrightarrow> infer_shape [int a, - 1, int c] n = Inr [a, m, c]"
  by (simp add: infer_shape_def)

lemma infer_shape_mid4:
  "0 < a \<Longrightarrow> 0 < c \<Longrightarrow> 0 < d \<Longrightarrow> n = a * m * c * d \<Longrightarrow>
   infer_shape [int a, - 1, int c, int d] n = Inr [a, m, c, d]"
  by (simp add: infer_shape_def)

lemma infer_shape_first4:
  "0 < c \<Longrightarrow> n = m * c \<Longrightarrow> infer_shape [- 1, int c, 1, 1] n = Inr [m, c, 1, 1]"
  by (simp add: infer_shape_def)

text \<open>split the last axis\<close>
lemma view_split_last:
  "view [int B, int N, int H, int D] (tab3 B N (H * D) f) =
     Inr (tab4 B N H D (\<lambda>b n h d. f b n (h * D + d)))"
proof -
  have i: "idx4 N H D b n h d = idx3 N (H * D) b n (h * D + d)" for b n h d
    by (simp add: idx4_def idx3_def algebra_simps)
  have "(tab3 B N (H * D) f)\<lparr>shape := [B, N, H, D]\<rparr> = tab4 B N H D (\<lambda>b n h d. f b n (h * D + d))"
    by (intro reshape_tab4_eq) (simp_all add: i data_tab3 lin2_less)
  then show ?thesis
    by (simp add: view_def infer_shape_plain4)
qed

text \<open>merge the two middle axes\<close>
lemma view_merge_mid:
  assumes "0 < s0" "0 < s3"
  shows "view [int s0, - 1, int s3] (tab4 s0 s1 s2 s3 f) =
     Inr (tab3 s0 (s1 * s2) s3 (\<lambda>b r j. f b (r div s2) (r mod s2) j))"
proof -
  have i: "idx3 (s1 * s2) s3 b r j = idx4 s1 s2 s3 b (r div s2) (r mod s2) j" for b r j
  proof -
    have "r = r div s2 * s2 + r mod s2" by simp
    then have "b * (s1 * s2) + r = (b * s1 + r div s2) * s2 + r mod s2"
      by (simp add: algebra_simps)
    then show ?thesis by (simp add: idx4_def idx3_def)
  qed
  have b: "r div s2 < s1 \<and> r mod s2 < s2" if "r < s1 * s2" for r
  proof -
    from that have "0 < s2" by (auto intro: Nat.gr0I)
    with that show ?thesis by (simp add: less_mult_imp_div_less)
  qed
  have r: "(tab4 s0 s1 s2 s3 f)\<lparr>shape := [s0, s1 * s2, s3]\<rparr>
      = tab3 s0 (s1 * s2) s3 (\<lambda>b r j. f b (r div s2) (r mod s2) j)"
    by (intro reshape_tab3_eq) (simp_all add: i data_tab4 b)
  have s: "infer_shape [int s0, - 1, int s3] (prod_list (shape (tab4 s0 s1 s2 s3 f)))
      = Inr [s0, s1 * s2, s3]"
    using assms by (intro infer_shape_mid3) simp_all
  show ?thesis
    by (simp only: view_def s r sum.case)
qed

text \<open>split the middle axis\<close>
lemma view_split_mid:
  assumes "0 < s0" "0 < M" "0 < H"
  shows "view [int s0, - 1, int M, int H] (tab3 s0 (N * M) H g) =
     Inr (tab4 s0 N M H (\<lambda>b i j h. g b (i * M + j) h))"
proof -
  have i: "idx4 N M H b i j h = idx3 (N * M) H b (i * M + j) h" for b i j h
    by (simp add: idx4_def idx3_def algebra_simps)
  have r: "(tab3 s0 (N * M) H g)\<lparr>shape := [s0, N, M, H]\<rparr>
      = tab4 s0 N M H (\<lambda>b i j h. g b (i * M + j) h)"
    by (intro reshape_tab4_eq) (simp_all add: i data_tab3 lin2_less)
  have s: "infer_shape [int s0, - 1, int M, int H] (prod_list (shape (tab3 s0 (N * M) H g)))
      = Inr [s0, N, M, H]"
    using assms by (intro infer_shape_mid4) simp_all
  show ?thesis
    by (simp only: view_def s r sum.case)
qed

text \<open>append a unit axis\<close>
lemma view_unit_last:
  assumes "shape t = [s0, s1, s2]" "wf_tensor t"
  shows "view [int s0, int s1, int s2, 1] t = Inr (tab4 s0 s1 s2 1 (\<lambda>a b c d. at3 t a b c))"
proof -
  have i: "idx4 s1 s2 (Suc 0) a b c 0 = idx3 s1 s2 a b c" for a b c
    by (simp add: idx4_def idx3_def)
  have "t\<lparr>shape := [s0, s1, s2, 1]\<rparr> = tab4 s0 s1 s2 1 (\<lambda>a b c d. at3 t a b c)"
    using assms by (intro reshape_tab4_eq) (simp_all add: i at3_def wf_tensor_def)
  then show ?thesis using assms
    by (simp add: view_def infer_shape_def)
qed

lemma unsqueeze3_eq:
  assumes "shape t = [s0, s1, s2]" "wf_tensor t"
  shows "unsqueeze3 t = Inr (tab4 s0 s1 s2 1 (\<lambda>a b c d. at3 t a b c))"
proof -
  have i: "idx4 s1 s2 (Suc 0) a b c 0 = idx3 s1 s2 a b c" for a b c
    by (simp add: idx4_def idx3_def)
  have "t\<lparr>shape := [s0, s1, s2, 1]\<rparr> = tab4 s0 s1 s2 1 (\<lambda>a b c d. at3 t a b c)"
    using assms by (intro reshape_tab4_eq) (simp_all add: i at3_def wf_tensor_def)
  then show ?thesis using assms
    by (simp add: unsqueeze3_def)
qed

text \<open>one channel vector per (batch, region) sample\<close>
lemma view_channels:
  assumes "0 < H * F"
  shows "view [- 1, int (H * F), 1, 1] (tab3 B (N * H) F g) =
     Inr (tab4 (B * N) (H * F) 1 1
       (\<lambda>m c x y. g (m div N) (m mod N * H + c div F) (c mod F)))"
proof -
  have i: "idx4 (H * F) (Suc 0) (Suc 0) m c 0 0 = idx3 (N * H) F (m div N) (m mod N * H + c div F) (c mod F)"
    for m c
  proof -
    have g: "(q * (N * H) + (r * H + x)) * F + y = ((q * N + r) * H + x) * F + y" for q r x y :: nat
      by (simp add: algebra_simps)
    have "(m div N * (N * H) + (m mod N * H + c div F)) * F + c mod F
        = ((m div N * N + m mod N) * H + c div F) * F + c mod F"
      by (rule g)
    also have "\<dots> = (m * H + c div F) * F + c mod F" by simp
    also have "\<dots> = m * (H * F) + (c div F * F + c mod F)"
      by (simp add: algebra_simps)
    also have "\<dots> = m * (H * F) + c" by simp
    finally show ?thesis by (simp add: idx4_def idx3_def)
  qed
  have bnd: "m div N < B \<and> m mod N * H + c div F < N * H \<and> c mod F < F"
    if "m < B * N" "c < H * F" for m c
  proof -
    from that have p: "0 < N" "0 < F" by (auto intro: Nat.gr0I)
    have "m div N < B" using that p by (simp add: less_mult_imp_div_less)
    moreover have "c div F < H" using that p by (simp add: less_mult_imp_div_less mult.commute)
    moreover have "m mod N < N" using p by simp
    ultimately show ?thesis using p by (simp add: lin2_less)
  qed
  have r: "(tab3 B (N * H) F g)\<lparr>shape := [B * N, H * F, 1, 1]\<rparr>
      = tab4 (B * N) (H * F) 1 1 (\<lambda>m c x y. g (m div N) (m mod N * H + c div F) (c mod F))"
    by (intro reshape_tab4_eq) (simp_all add: i data_tab3 bnd)
  have s: "infer_shape [- 1, int (H * F), 1, 1] (prod_list (shape (tab3 B (N * H) F g)))
      = Inr [B * N, H * F, 1, 1]"
    using assms by (intro infer_shape_first4) simp_all
  show ?thesis
    by (simp only: view_def s r sum.case)
qed

text \<open>back to (batch, region, feature)\<close>
lemma view_output:
  "view [int B, int N, int F] (tab4 (B * N) F (Suc 0) (Suc 0) g) =
     Inr (tab3 B N F (\<lambda>b i c. g (b * N + i) c 0 0))"
proof -
  have i: "idx3 N F b i c = idx4 F (Suc 0) (Suc 0) (b * N + i) c 0 0" for b i c
    by (simp add: idx4_def idx3_def)
  have "(tab4 (B * N) F (Suc 0) (Suc 0) g)\<lparr>shape := [B, N, F]\<rparr> = tab3 B N F (\<lambda>b i c. g (b * N + i) c 0 0)"
    by (intro reshape_tab3_eq) (simp_all add: i data_tab4 lin2_less)
  then show ?thesis
    by (simp add: view_def infer_shape_plain3)
qed

lemma content_stage_eq:
  assumes hd: "0 < num_heads l" "num_heads l dvd feat_dim l" "0 < feat_dim l"
    and sh: "shape roi = [B, N, feat_dim l]" "wf_tensor roi"
    and ng: "eff_nongt l N = int M" "M \<le> N"
  shows "content_stage l roi =
     Inr \<lparr>batch_size = B, num_rois = N, nongt = int M,
          v_data = tab3 B M (feat_dim l) (at3 roi),
          weighted_aff = tab4 B N (num_heads l) M (content_score l roi)\<rparr>"
proof -
  define H where "H = num_heads l"
  define D where "D = dim_group l"
  have F: "feat_dim l = H * D"
    using hd by (simp add: H_def D_def dim_group_def)
  have D0: "D \<noteq> 0" using hd F by (auto intro: Nat.gr0I)
  have roi: "roi = tab3 B N (H * D) (at3 roi)"
    using sh by (intro tensor_tab3) (simp_all add: F)
  have sz: "tsize roi 0 = Inr B" "tsize roi (Suc 0) = Inr N"
    using sh by (simp_all add: tsize_def)
  have sl: "slice_dim1 (int M) roi = Inr (tab3 B M (H * D) (at3 roi))"
    by (subst roi, rule slice_dim1_tab3[OF ng(2)])
  have q: "fcnet_apply (H * D) (H * D) (query l) roi =
      Inr (tab3 B N (H * D) (\<lambda>a b c. query l (map (at3 roi a b) [0..<H * D]) c))"
    by (subst roi, rule fcnet_apply_tab3)
  have rr: "row3 roi b i = map (at3 roi b i) [0..<H * D]" for b i
    using sh by (simp add: row3_def F)
  have "content_stage l roi =
     Inr \<lparr>batch_size = B, num_rois = N, nongt = int M,
          v_data = tab3 B M (H * D) (at3 roi),
          weighted_aff = tab4 B N H M (\<lambda>b i h j. 1 / sqrt (real D) *
            sum_list (map (\<lambda>d. query l (map (at3 roi b i) [0..<H * D]) (h * D + d) *
                         key l (map (at3 roi b j) [0..<H * D]) (h * D + d)) [0..<D]))\<rparr>"
    unfolding content_stage_def
    using D0
    by (simp add: sz ng(1) F H_def[symmetric] D_def[symmetric] sl q fcnet_apply_tab3
        view_split_last transpose12_tab4 transpose23_tab4 matmul4_tab4 tmap_tab4)
  also have "tab4 B N H M (\<lambda>b i h j. 1 / sqrt (real D) *
            sum_list (map (\<lambda>d. query l (map (at3 roi b i) [0..<H * D]) (h * D + d) *
                         key l (map (at3 roi b j) [0..<H * D]) (h * D + d)) [0..<D]))
      = tab4 B N H M (content_score l roi)"
    by (intro tab4_cong) (simp add: content_score_def rr D_def)
  finally show ?thesis by (simp add: F H_def)
qed

lemma position_stage_eq:
  assumes pd: "pos_emb_dim l = int P" "0 < P"
    and pos: "shape pe = [B, N, M, P]" "wf_tensor pe"
    and st: "batch_size st = B" "nongt st = int M" "weighted_aff st = tab4 B N (num_heads l) M f"
    and nz: "0 < B" "0 < M" "0 < num_heads l"
  shows "position_stage l pe st =
     Inr (st\<lparr>weighted_aff := tab4 B N (num_heads l) M
            (\<lambda>b i h j. f b i h j + pos_term l pe b i h j)\<rparr>)"
proof -
  define H where "H = num_heads l"
  have pe: "pe = tab4 B N M P (at4 pe)"
    using pos by (intro tensor_tab4) simp_all
  have v1: "view [int B, - 1, int P] pe =
      Inr (tab3 B (N * M) P (\<lambda>b r p. at4 pe b (r div M) (r mod M) p))"
    by (subst pe, rule view_merge_mid) (use nz pd in simp_all)
  have rr: "row4 pe b i j = map (at4 pe b i j) [0..<P]" for b i j
    using pos by (simp add: row4_def)
  have "position_stage l pe st =
     Inr (st\<lparr>weighted_aff := tab4 B N H M
            (\<lambda>b i h j. f b i h j +
               ln (max (max 0 (pair_pos_fc1 l
                     (map (at4 pe b ((i * M + j) div M) ((i * M + j) mod M)) [0..<P]) h))
                   (1 / 10 ^ 6)))\<rparr>)"
    unfolding position_stage_def
    using nz
    by (simp add: st pd v1 fc_dim_def H_def[symmetric] fcnet_apply_tab3 tmap_tab3 tmap_tab4
        view_split_mid transpose23_tab4 iadd_tab4)
  also have "tab4 B N H M
            (\<lambda>b i h j. f b i h j +
               ln (max (max 0 (pair_pos_fc1 l
                     (map (at4 pe b ((i * M + j) div M) ((i * M + j) mod M)) [0..<P]) h))
                   (1 / 10 ^ 6)))
      = tab4 B N H M (\<lambda>b i h j. f b i h j + pos_term l pe b i h j)"
    by (intro tab4_cong) (simp add: pos_term_def rr)
  finally show ?thesis by (simp add: H_def)
qed

lemma adjacency_stage_eq:
  assumes adj: "shape adj = [B, N, M]" "wf_tensor adj"
    and lb: "shape lb = [B, N, M]" "wf_tensor lb"
    and st: "weighted_aff st = tab4 B N H M f"
  shows "adjacency_stage adj (Some lb) st =
     Inr (st\<lparr>weighted_aff := tab4 B N H M
            (\<lambda>b i h j. (if 0 < at3 adj b i j then f b i h j else sentinel) + at3 lb b i j)\<rparr>)"
proof -
  have sz: "tsize adj 0 = Inr B" "tsize adj (Suc 0) = Inr N" "tsize adj 2 = Inr M"
    using adj by (simp_all add: tsize_def)
  show ?thesis
    unfolding adjacency_stage_def
    by (simp add: st sz transpose23_tab4 tmap_tab4 view_unit_last[OF adj] unsqueeze3_eq[OF lb]
        expand4_tab4_last1 where_gt0_tab4 add4_tab4_last1)
qed

lemma aggregate_eq:
  assumes st: "batch_size st = B" "num_rois st = N" "nongt st = int M"
      "v_data st = tab3 B M (feat_dim l) v" "weighted_aff st = tab4 B N (num_heads l) M w"
    and nz: "0 < B" "0 < M" "0 < num_heads l" "0 < feat_dim l"
  shows "aggregate l st =
     Inr (tab3 B N (feat_dim l)
       (\<lambda>b i c. linear_out_conv l
          (map (\<lambda>ch. sum_list (map (\<lambda>j. w b i (ch div feat_dim l) j * v b j (ch mod feat_dim l))
                          [0..<M]))
             [0..<num_heads l * feat_dim l]) c))"
proof -
  define H where "H = num_heads l"
  define F where "F = feat_dim l"
  have "aggregate l st =
     Inr (tab3 B N F
       (\<lambda>b i c. linear_out_conv l
          (map (\<lambda>ch. sum_list (map (\<lambda>j. w ((b * N + i) div N) ((((b * N + i) mod N) * H + ch div F) div H)
                         ((((b * N + i) mod N) * H + ch div F) mod H) j * v ((b * N + i) div N) j (ch mod F))
                          [0..<M]))
             [0..<H * F]) c))"
    unfolding aggregate_def
    using nz
    by (simp del: of_nat_mult add: st fc_dim_def H_def[symmetric] F_def[symmetric] view_merge_mid matmul3_tab3
        view_channels conv_apply_tab4 view_output)
  also have "tab3 B N F
       (\<lambda>b i c. linear_out_conv l
          (map (\<lambda>ch. sum_list (map (\<lambda>j. w ((b * N + i) div N) ((((b * N + i) mod N) * H + ch div F) div H)
                         ((((b * N + i) mod N) * H + ch div F) mod H) j * v ((b * N + i) div N) j (ch mod F))
                          [0..<M]))
             [0..<H * F]) c)
     = tab3 B N F
       (\<lambda>b i c. linear_out_conv l
          (map (\<lambda>ch. sum_list (map (\<lambda>j. w b i (ch div F) j * v b j (ch mod F))
                          [0..<M]))
             [0..<H * F]) c)"
  proof (intro tab3_cong)
    fix b i c assume h: "b < B" "i < N" "c < F"
    have "(i * H + ch div F) div H = i \<and> (i * H + ch div F) mod H = ch div F" if "ch < H * F" for ch
    proof -
      have "ch div F < H" using that nz by (simp add: less_mult_imp_div_less mult.commute F_def)
      then show ?thesis by simp
    qed
    then have "map (\<lambda>ch. sum_list (map (\<lambda>j. w ((b * N + i) div N) ((((b * N + i) mod N) * H + ch div F) div H)
                         ((((b * N + i) mod N) * H + ch div F) mod H) j * v ((b * N + i) div N) j (ch mod F))
                          [0..<M])) [0..<H * F]
        = map (\<lambda>ch. sum_list (map (\<lambda>j. w b i (ch div F) j * v b j (ch mod F)) [0..<M])) [0..<H * F]"
      using h by simp
    then show "linear_out_conv l
          (map (\<lambda>ch. sum_list (map (\<lambda>j. w ((b * N + i) div N) ((((b * N + i) mod N) * H + ch div F) div H)
                         ((((b * N + i) mod N) * H + ch div F) mod H) j * v ((b * N + i) div N) j (ch mod F))
                          [0..<M])) [0..<H * F]) c
        = linear_out_conv l
          (map (\<lambda>ch. sum_list (map (\<lambda>j. w b i (ch div F) j * v b j (ch mod F)) [0..<M])) [0..<H * F]) c"
      by (simp only:)
  qed
  finally show ?thesis by (simp add: H_def F_def)
qed

lemma eff_nongt_nat:
  assumes "0 < nongt_dim l" "0 < N"
  shows "eff_nongt l N = int (nat (eff_nongt l N))" "0 < nat (eff_nongt l N)" "nat (eff_nongt l N) \<le> N"
  using assms by (auto simp: eff_nongt_def)

lemma score_stage_eq:
  assumes "valid_call l B N roi adj pe lb"
  shows "score_stage l roi adj pe lb =
     Inr \<lparr>batch_size = B, num_rois = N, nongt = int (nat (eff_nongt l N)),
          v_data = tab3 B (nat (eff_nongt l N)) (feat_dim l) (at3 roi),
          weighted_aff = tab4 B N (num_heads l) (nat (eff_nongt l N)) (score_fn l roi adj pe lb)\<rparr>"
proof -
  define M where "M = nat (eff_nongt l N)"
  have v: "wf_layer l" "shape roi = [B, N, feat_dim l]" "wf_tensor roi" "0 < B" "0 < N"
    "valid_opt3 B N M adj" "valid_pos l B N M pe" "adj \<noteq> None \<longrightarrow> lb \<noteq> None \<and> valid_opt3 B N M lb"
    using assms by (simp_all add: valid_call_def M_def)
  have l: "0 < num_heads l" "num_heads l dvd feat_dim l" "0 < feat_dim l" "0 < nongt_dim l"
    using v(1) by (simp_all add: wf_layer_def)
  have M: "eff_nongt l N = int M" "0 < M" "M \<le> N"
    using eff_nongt_nat[OF l(4) v(5)] by (simp_all add: M_def)
  define st0 where "st0 = \<lparr>batch_size = B, num_rois = N, nongt = int M,
          v_data = tab3 B M (feat_dim l) (at3 roi),
          weighted_aff = tab4 B N (num_heads l) M (content_score l roi)\<rparr>"
  have c: "content_stage l roi = Inr st0"
    unfolding st0_def by (rule content_stage_eq[OF l(1,2,3) v(2,3) M(1,3)])
  define f1 where "f1 = (\<lambda>b i h j. content_score l roi b i h j +
              (case pe of None \<Rightarrow> 0 | Some p \<Rightarrow> if 0 < pos_emb_dim l then pos_term l p b i h j else 0))"
  define st1 where "st1 = st0\<lparr>weighted_aff := tab4 B N (num_heads l) M f1\<rparr>"
  have p: "(case pe of Some p \<Rightarrow> if 0 < pos_emb_dim l then position_stage l p st0 else Inr st0
            | None \<Rightarrow> Inr st0) = Inr st1"
  proof (cases pe)
    case None
    then show ?thesis by (simp add: st1_def st0_def f1_def)
  next
    case (Some p)
    show ?thesis
    proof (cases "0 < pos_emb_dim l")
      case False
      then show ?thesis using Some by (simp add: st1_def st0_def f1_def)
    next
      case True
      define P where "P = nat (pos_emb_dim l)"
      have P: "pos_emb_dim l = int P" "0 < P"
        using True by (simp_all add: P_def)
      have sp: "shape p = [B, N, M, P]" "wf_tensor p"
        using v(7) Some True P by (simp_all add: valid_pos_def)
      have "position_stage l p st0 = Inr (st0\<lparr>weighted_aff := tab4 B N (num_heads l) M
            (\<lambda>b i h j. content_score l roi b i h j + pos_term l p b i h j)\<rparr>)"
        by (rule position_stage_eq[OF P sp _ _ _ v(4) M(2) l(1)]) (simp_all add: st0_def)
      then show ?thesis using Some True by (simp add: st1_def f1_def)
    qed
  qed
  have a: "(case adj of Some a \<Rightarrow> adjacency_stage a lb st1 | None \<Rightarrow> Inr st1)
      = Inr (st1\<lparr>weighted_aff := tab4 B N (num_heads l) M (score_fn l roi adj pe lb)\<rparr>)"
  proof (cases adj)
    case None
    have "tab4 B N (num_heads l) M f1 = tab4 B N (num_heads l) M (score_fn l roi adj pe lb)"
      by (intro tab4_cong) (simp add: f1_def score_fn_def None)
    then show ?thesis using None by (simp add: st1_def)
  next
    case (Some a)
    with v(8) obtain t where t: "lb = Some t" by auto
    have sa: "shape a = [B, N, M]" "wf_tensor a" using v(6) Some by (simp_all add: valid_opt3_def)
    have sb: "shape t = [B, N, M]" "wf_tensor t" using v(8) Some t by (simp_all add: valid_opt3_def)
    have "adjacency_stage a (Some t) st1 = Inr (st1\<lparr>weighted_aff := tab4 B N (num_heads l) M
            (\<lambda>b i h j. (if 0 < at3 a b i j then f1 b i h j else sentinel) + at3 t b i j)\<rparr>)"
      by (rule adjacency_stage_eq[OF sa sb]) (simp add: st1_def)
    moreover have "tab4 B N (num_heads l) M
            (\<lambda>b i h j. (if 0 < at3 a b i j then f1 b i h j else sentinel) + at3 t b i j)
        = tab4 B N (num_heads l) M (score_fn l roi adj pe lb)"
      by (intro tab4_cong) (simp add: f1_def score_fn_def Some t)
    ultimately show ?thesis using Some t by simp
  qed
  show ?thesis
    unfolding score_stage_def
    by (simp add: c p a) (simp add: st1_def st0_def M_def)
qed

lemma softmax_stage_eq:
  assumes "valid_call l B N roi adj pe lb"
  shows "softmax_stage l roi adj pe lb =
     Inr \<lparr>batch_size = B, num_rois = N, nongt = int (nat (eff_nongt l N)),
          v_data = tab3 B (nat (eff_nongt l N)) (feat_dim l) (at3 roi),
          weighted_aff = tab4 B N (num_heads l) (nat (eff_nongt l N))
            (attn_fn l roi adj pe lb (nat (eff_nongt l N)))\<rparr>"
  unfolding softmax_stage_def
  by (simp add: score_stage_eq[OF assms] softmax3_tab4, intro tab4_cong) (simp add: attn_fn_def)

lemma forward_eq:
  assumes "valid_call l B N roi adj pe lb"
  shows "forward l roi adj pe lb =
     Inr (tab3 B N (feat_dim l) (out_fn l roi adj pe lb (nat (eff_nongt l N))))"
proof -
  have l: "0 < num_heads l" "0 < feat_dim l" "0 < nongt_dim l" "0 < B" "0 < N"
    using assms by (simp_all add: valid_call_def wf_layer_def)
  have M: "0 < nat (eff_nongt l N)" using eff_nongt_nat[OF l(3) l(5)] by simp
  have "aggregate l \<lparr>batch_size = B, num_rois = N, nongt = int (nat (eff_nongt l N)),
          v_data = tab3 B (nat (eff_nongt l N)) (feat_dim l) (at3 roi),
          weighted_aff = tab4 B N (num_heads l) (nat (eff_nongt l N))
            (attn_fn l roi adj pe lb (nat (eff_nongt l N)))\<rparr>
     = Inr (tab3 B N (feat_dim l) (out_fn l roi adj pe lb (nat (eff_nongt l N))))"
    by (subst aggregate_eq[where B = B and N = N and M = "nat (eff_nongt l N)"
          and v = "at3 roi" and w = "attn_fn l roi adj pe lb (nat (eff_nongt l N))"])
       (use l M in \<open>simp_all add: out_fn_def[abs_def]\<close>)
  then show ?thesis
    unfolding forward_def by (simp add: softmax_stage_eq[OF assms])
qed

section \<open>Softmax rows and failing calls\<close>

lemma exp_sum_list_pos:
  "0 < M \<Longrightarrow> 0 < sum_list (map (\<lambda>k. exp (f k :: real)) [0..<M])"
proof -
  assume "0 < M"
  then obtain m where m: "M = Suc m" by (cases M) auto
  have "0 \<le> sum_list (map (\<lambda>k. exp (f k)) [0..<m])"
    by (intro sum_list_nonneg) auto
  then show ?thesis by (simp add: m add_nonneg_pos)
qed

lemma softmax_nonneg:
  "0 \<le> exp (x :: real) / sum_list (map (\<lambda>k. exp (f k)) [0..<M])"
  by (intro divide_nonneg_nonneg sum_list_nonneg) auto

lemma softmax_sum_one:
  assumes "0 < M"
  shows "sum_list (map (\<lambda>j. exp (f j :: real) / sum_list (map (\<lambda>k. exp (f k)) [0..<M])) [0..<M]) = 1"
proof -
  let ?S = "sum_list (map (\<lambda>k. exp (f k)) [0..<M])"
  have S: "0 < ?S" by (rule exp_sum_list_pos[OF assms])
  have "sum_list (map (\<lambda>j. exp (f j) / ?S) [0..<M]) = sum_list (map (\<lambda>j. exp (f j) * inverse ?S) [0..<M])"
    by (simp add: divide_inverse)
  also have "\<dots> = ?S * inverse ?S"
    by (rule sum_list_mult_const)
  also have "\<dots> = 1" using S by simp
  finally show ?thesis .
qed

lemma valid_call_facts:
  assumes "valid_call l B N roi adj pe lb"
  shows "0 < B" "0 < N" "0 < num_heads l" "0 < feat_dim l" "0 < nat (eff_nongt l N)"
    "nat (eff_nongt l N) \<le> N" "shape roi = [B, N, feat_dim l]" "wf_tensor roi"
    "eff_nongt l N = int (nat (eff_nongt l N))"
proof -
  have a: "0 < nongt_dim l" "0 < N" using assms by (simp_all add: valid_call_def wf_layer_def)
  show "0 < B" "0 < N" "0 < num_heads l" "0 < feat_dim l" "shape roi = [B, N, feat_dim l]" "wf_tensor roi"
    using assms by (simp_all add: valid_call_def wf_layer_def)
  show "0 < nat (eff_nongt l N)" "nat (eff_nongt l N) \<le> N" "eff_nongt l N = int (nat (eff_nongt l N))"
    using eff_nongt_nat[OF a] by simp_all
qed







section \<open>Bounds on softmax weights\<close>



lemma valid_call_layer:
  assumes "valid_call l B N roi adj pe lb"
  shows "num_heads l dvd feat_dim l"
  using assms by (simp add: valid_call_def wf_layer_def)


lemma row3_nth:
  assumes "shape t = [s0, s1, s2]" "c < s2"
  shows "row3 t a b ! c = at3 t a b c"
  using assms by (simp add: row3_def)





section \<open>Evaluation on concrete inputs\<close>

lemmas forward_defs = bindE_def tsize_def py_stop_def slice_dim1_def infer_shape_def view_def
  row3_def fcnet_apply_def transpose12_def transpose23_def matmul4_def matmul3_def tmap_def
  bcompat_def bdim_def bix_def bat4_def bshape4_def tab4s_def iadd_def add4_def where_gt0_def
  expand_ok_def expand_dim_def expand4_def unsqueeze3_def softmax3_def conv_apply_def fc_dim_def
  dim_group_def eff_nongt_def sentinel_def content_stage_def position_stage_def
  adjacency_stage_def score_stage_def softmax_stage_def aggregate_def forward_def tab3_def
  tab4_def at3_def at4_def idx3_def idx4_def ex_layer_def ex_odd_layer_def ex_tensor_def

lemmas valid_defs = valid_call_def valid_opt3_def valid_pos_def wf_layer_def wf_tensor_def
  eff_nongt_def ex_layer_def ex_tensor_def

section \<open>Optional arguments\<close>

text \<open>
  C10. When the adjacency argument is \<open>None\<close>, \<open>forward\<close> never reads
  \<open>label_biases_att\<close>: two calls that differ only in that argument, \<open>None\<close> included,
  return the same result, so passing label biases without an adjacency matrix raises no error
  of its own.
\<close>

theorem forward_no_adjacency_ignores_label_biases:
  "forward l roi None pe lb = forward l roi None pe lb'"
  by (simp add: forward_def softmax_stage_def score_stage_def)

text \<open>
  C2, as stated: with \<open>pos_emb_dim \<le> 0\<close>, a call with a position embedding fails. It does
  not: the layer with \<open>pos_emb_dim = -1\<close> returns a result.
\<close>

theorem forward_accepts_position_embedding_when_disabled:
  "pos_emb_dim (ex_layer 1 (- 1)) \<le> 0 \<and>
   forward (ex_layer 1 (- 1)) (ex_tensor [1, 1, 1] [2]) None
     (Some (ex_tensor [1, 1, 1, 3] [0, 1, 2])) None = Inr (ex_tensor [1, 1, 1] [2])"
  by (simp add: forward_defs)

text \<open>
  C2, amended: with \<open>pos_emb_dim \<le> 0\<close> the guard of source line 108 skips the positional
  stage, and \<open>forward\<close> returns what it returns without a position embedding.
\<close>

theorem forward_ignores_position_embedding_when_disabled:
  "pos_emb_dim l \<le> 0 \<Longrightarrow> forward l roi adj (Some pe) lb = forward l roi adj None lb"
  by (simp add: forward_def softmax_stage_def score_stage_def)

theorem forward_ignores_position_embedding_when_disabled_witness:
  "pos_emb_dim (ex_layer 1 (- 1)) \<le> 0 \<and>
   forward (ex_layer 1 (- 1)) (ex_tensor [1, 1, 1] [2]) None
     (Some (ex_tensor [1, 1, 1, 3] [0, 1, 2])) None =
   forward (ex_layer 1 (- 1)) (ex_tensor [1, 1, 1] [2]) None None None"
proof -
  have h: "pos_emb_dim (ex_layer 1 (- 1)) \<le> 0" by (simp add: ex_layer_def)
  show ?thesis
    using h forward_ignores_position_embedding_when_disabled [OF h] by simp
qed


section \<open>Shapes, neighbour pool and normalisation\<close>

text \<open>
  C7. For every well-shaped call on features of shape \<open>(B, N, feat_dim)\<close>, \<open>forward\<close>
  returns a tensor of shape \<open>(B, N, feat_dim)\<close>, the configured output width, whatever
  \<open>N\<close> and the neighbourhood size are and whether or not the adjacency matrix, the position
  embedding and the label biases are given.
\<close>

theorem forward_output_shape:
  "valid_call l B N roi adj pe lb \<Longrightarrow>
   \<exists>out. forward l roi adj pe lb = Inr out \<and> shape out = [B, N, feat_dim l] \<and> wf_tensor out"
  by (simp add: forward_eq)

theorem forward_output_shape_witness:
  "valid_call (ex_layer 2 1) 1 3 (ex_tensor [1, 3, 1] [1, 2, 3])
     (Some (ex_tensor [1, 3, 2] [1, 0, 0, 1, 1, 1]))
     (Some (ex_tensor [1, 3, 2, 1] [0, 1, 2, 3, 4, 5]))
     (Some (ex_tensor [1, 3, 2] [0, 0, 1, 1, 2, 2])) \<and>
   (\<exists>out. forward (ex_layer 2 1) (ex_tensor [1, 3, 1] [1, 2, 3])
       (Some (ex_tensor [1, 3, 2] [1, 0, 0, 1, 1, 1]))
       (Some (ex_tensor [1, 3, 2, 1] [0, 1, 2, 3, 4, 5]))
       (Some (ex_tensor [1, 3, 2] [0, 0, 1, 1, 2, 2])) = Inr out \<and>
     shape out = [1, 3, 1] \<and> wf_tensor out)"
proof -
  have v: "valid_call (ex_layer 2 1) 1 3 (ex_tensor [1, 3, 1] [1, 2, 3])
     (Some (ex_tensor [1, 3, 2] [1, 0, 0, 1, 1, 1]))
     (Some (ex_tensor [1, 3, 2, 1] [0, 1, 2, 3, 4, 5]))
     (Some (ex_tensor [1, 3, 2] [0, 0, 1, 1, 2, 2]))"
    by (simp add: valid_defs)
  have f: "feat_dim (ex_layer 2 1) = 1" by (simp add: ex_layer_def)
  show ?thesis
    using v forward_output_shape [OF v] by (simp add: f)
qed



text \<open>
  C8. After the softmax, for every batch entry, region and head, the weights over the
  neighbourhood axis are non-negative and add up to 1.
\<close>

theorem softmax_rows_normalised:
  assumes "valid_call l B N roi adj pe lb"
  shows "\<exists>st. softmax_stage l roi adj pe lb = Inr st \<and>
     shape (weighted_aff st) = [B, N, num_heads l, nat (eff_nongt l N)] \<and>
     (\<forall>b<B. \<forall>i<N. \<forall>h<num_heads l.
        (\<forall>j<nat (eff_nongt l N). 0 \<le> at4 (weighted_aff st) b i h j) \<and>
        sum_list (map (at4 (weighted_aff st) b i h) [0..<nat (eff_nongt l N)]) = 1)"
proof -
  define M where "M = nat (eff_nongt l N)"
  have M: "0 < M" using valid_call_facts(5)[OF assms] by (simp add: M_def)
  define w where "w = tab4 B N (num_heads l) M (attn_fn l roi adj pe lb M)"
  have nn: "0 \<le> at4 w b i h j" if "b < B" "i < N" "h < num_heads l" "j < M" for b i h j
    using that by (simp add: w_def at4_tab4 attn_fn_def softmax_nonneg)
  have s1: "sum_list (map (at4 w b i h) [0..<M]) = 1" if "b < B" "i < N" "h < num_heads l" for b i h
  proof -
    have "sum_list (map (at4 w b i h) [0..<M]) = sum_list (map (attn_fn l roi adj pe lb M b i h) [0..<M])"
      using that by (intro sum_list_upt_cong) (simp add: w_def at4_tab4)
    also have "\<dots> = 1"
      unfolding attn_fn_def by (rule softmax_sum_one[OF M])
    finally show ?thesis .
  qed
  show ?thesis
    using nn s1 by (simp add: softmax_stage_eq[OF assms] M_def[symmetric] w_def[symmetric]) (simp add: w_def)
qed

theorem softmax_rows_normalised_witness:
  "valid_call (ex_layer 2 1) 1 3 (ex_tensor [1, 3, 1] [1, 2, 3])
     (Some (ex_tensor [1, 3, 2] [1, 0, 0, 1, 1, 1]))
     (Some (ex_tensor [1, 3, 2, 1] [0, 1, 2, 3, 4, 5]))
     (Some (ex_tensor [1, 3, 2] [0, 0, 1, 1, 2, 2])) \<and>
   (\<exists>st. softmax_stage (ex_layer 2 1) (ex_tensor [1, 3, 1] [1, 2, 3])
       (Some (ex_tensor [1, 3, 2] [1, 0, 0, 1, 1, 1]))
       (Some (ex_tensor [1, 3, 2, 1] [0, 1, 2, 3, 4, 5]))
       (Some (ex_tensor [1, 3, 2] [0, 0, 1, 1, 2, 2])) = Inr st \<and>
     0 \<le> at4 (weighted_aff st) 0 2 0 1 \<and>
     at4 (weighted_aff st) 0 2 0 0 + at4 (weighted_aff st) 0 2 0 1 = 1)"
proof -
  have v: "valid_call (ex_layer 2 1) 1 3 (ex_tensor [1, 3, 1] [1, 2, 3])
     (Some (ex_tensor [1, 3, 2] [1, 0, 0, 1, 1, 1]))
     (Some (ex_tensor [1, 3, 2, 1] [0, 1, 2, 3, 4, 5]))
     (Some (ex_tensor [1, 3, 2] [0, 0, 1, 1, 2, 2]))"
    by (simp add: valid_defs)
  have e: "nat (eff_nongt (ex_layer 2 1) 3) = 2" "num_heads (ex_layer 2 1) = 1"
    by (simp_all add: eff_nongt_def ex_layer_def)
  have u: "[0..<2] = [0, 1]" by (simp add: upt_rec)
  from softmax_rows_normalised [OF v] obtain st where
    st: "softmax_stage (ex_layer 2 1) (ex_tensor [1, 3, 1] [1, 2, 3])
       (Some (ex_tensor [1, 3, 2] [1, 0, 0, 1, 1, 1]))
       (Some (ex_tensor [1, 3, 2, 1] [0, 1, 2, 3, 4, 5]))
       (Some (ex_tensor [1, 3, 2] [0, 0, 1, 1, 2, 2])) = Inr st"
    and r: "\<forall>b<1. \<forall>i<3. \<forall>h<1. (\<forall>j<2. 0 \<le> at4 (weighted_aff st) b i h j) \<and>
        sum_list (map (at4 (weighted_aff st) b i h) [0..<2]) = 1"
    unfolding e by blast
  from r have "(\<forall>j<2. 0 \<le> at4 (weighted_aff st) 0 2 0 j) \<and>
        sum_list (map (at4 (weighted_aff st) 0 2 0) [0..<2]) = 1"
    by simp
  then have "0 \<le> at4 (weighted_aff st) 0 2 0 1 \<and>
     at4 (weighted_aff st) 0 2 0 0 + at4 (weighted_aff st) 0 2 0 1 = 1"
    by (simp add: u)
  with v st show ?thesis by blast
qed

section \<open>Failing calls\<close>




section \<open>Positional fusion\<close>

text \<open>
  C5. When a position embedding is given and \<open>pos_emb_dim > 0\<close>, \<open>forward\<close> applies the
  positional projection (of output width \<open>num_heads\<close>) to each embedding row, then the
  rectifier, clamps the result from below at \<open>1e-6\<close>, takes the logarithm and adds it to the
  content score of the same (batch, region, head, neighbour) position. The stage succeeds
  whatever the values are: a zero or negative projection is clamped, not raised.
\<close>

theorem positional_fusion:
  assumes "valid_call l B N roi adj (Some pe) lb" "0 < pos_emb_dim l"
  shows "\<exists>st0 st1. content_stage l roi = Inr st0 \<and> position_stage l pe st0 = Inr st1 \<and>
     score_stage l roi adj (Some pe) lb =
       (case adj of None \<Rightarrow> Inr st1 | Some a \<Rightarrow> adjacency_stage a lb st1) \<and>
     (\<forall>b<B. \<forall>i<N. \<forall>h<num_heads l. \<forall>j<nat (eff_nongt l N).
        at4 (weighted_aff st1) b i h j =
        at4 (weighted_aff st0) b i h j +
        ln (max (max 0 (pair_pos_fc1 l (row4 pe b i j) h)) (1 / 10 ^ 6)))"
proof -
  define M where "M = nat (eff_nongt l N)"
  define P where "P = nat (pos_emb_dim l)"
  note f = valid_call_facts[OF assms(1), folded M_def]
  have P: "pos_emb_dim l = int P" "0 < P" using assms(2) by (simp_all add: P_def)
  have sp: "shape pe = [B, N, M, P]" "wf_tensor pe"
    using assms by (simp_all add: valid_call_def valid_pos_def M_def P_def)
  define st0 where "st0 = \<lparr>batch_size = B, num_rois = N, nongt = int M,
          v_data = tab3 B M (feat_dim l) (at3 roi),
          weighted_aff = tab4 B N (num_heads l) M (content_score l roi)\<rparr>"
  define st1 where "st1 = st0\<lparr>weighted_aff := tab4 B N (num_heads l) M
            (\<lambda>b i h j. content_score l roi b i h j + pos_term l pe b i h j)\<rparr>"
  have c: "content_stage l roi = Inr st0"
    unfolding st0_def
    by (rule content_stage_eq[OF f(3) valid_call_layer[OF assms(1)] f(4) f(7) f(8) f(9) f(6)])
  have p: "position_stage l pe st0 = Inr st1"
    unfolding st1_def
    by (rule position_stage_eq[OF P sp _ _ _ f(1) f(5) f(3)]) (simp_all add: st0_def)
  have s: "score_stage l roi adj (Some pe) lb =
       (case adj of None \<Rightarrow> Inr st1 | Some a \<Rightarrow> adjacency_stage a lb st1)"
    using assms(2) by (simp add: score_stage_def c p)
  have e: "at4 (weighted_aff st1) b i h j =
        at4 (weighted_aff st0) b i h j +
        ln (max (max 0 (pair_pos_fc1 l (row4 pe b i j) h)) (1 / 10 ^ 6))"
    if "b < B" "i < N" "h < num_heads l" "j < M" for b i h j
    using that by (simp add: st1_def st0_def at4_tab4 pos_term_def)
  show ?thesis
    using c p s e unfolding M_def by blast
qed

theorem positional_fusion_witness:
  "valid_call (ex_layer 2 1) 1 3 (ex_tensor [1, 3, 1] [1, 2, 3]) None
     (Some (ex_tensor [1, 3, 2, 1] [0, 1, 2, - 3, 4, 5])) None \<and>
   0 < pos_emb_dim (ex_layer 2 1) \<and>
   (\<exists>st0 st1. content_stage (ex_layer 2 1) (ex_tensor [1, 3, 1] [1, 2, 3]) = Inr st0 \<and>
      score_stage (ex_layer 2 1) (ex_tensor [1, 3, 1] [1, 2, 3]) None
        (Some (ex_tensor [1, 3, 2, 1] [0, 1, 2, - 3, 4, 5])) None = Inr st1 \<and>
      at4 (weighted_aff st1) 0 1 0 1 = at4 (weighted_aff st0) 0 1 0 1 + ln (1 / 10 ^ 6))"
proof -
  have v: "valid_call (ex_layer 2 1) 1 3 (ex_tensor [1, 3, 1] [1, 2, 3]) None
     (Some (ex_tensor [1, 3, 2, 1] [0, 1, 2, - 3, 4, 5])) None"
    by (simp add: valid_defs)
  have p: "0 < pos_emb_dim (ex_layer 2 1)" by (simp add: ex_layer_def)
  have e: "nat (eff_nongt (ex_layer 2 1) 3) = 2" "num_heads (ex_layer 2 1) = 1"
    by (simp_all add: eff_nongt_def ex_layer_def)
  have g: "pair_pos_fc1 (ex_layer 2 1) (row4 (ex_tensor [1, 3, 2, 1] [0, 1, 2, - 3, 4, 5]) 0 1 1) 0 = - 3"
    by (simp add: ex_layer_def row4_def ex_tensor_def at4_def idx4_def)
  from positional_fusion [OF v p] obtain st0 st1 where
    a: "content_stage (ex_layer 2 1) (ex_tensor [1, 3, 1] [1, 2, 3]) = Inr st0"
    and b: "score_stage (ex_layer 2 1) (ex_tensor [1, 3, 1] [1, 2, 3]) None
        (Some (ex_tensor [1, 3, 2, 1] [0, 1, 2, - 3, 4, 5])) None = Inr st1"
    and c: "\<forall>b<1. \<forall>i<3. \<forall>h<1. \<forall>j<2.
        at4 (weighted_aff st1) b i h j =
        at4 (weighted_aff st0) b i h j +
        ln (max (max 0 (pair_pos_fc1 (ex_layer 2 1)
              (row4 (ex_tensor [1, 3, 2, 1] [0, 1, 2, - 3, 4, 5]) b i j) h)) (1 / 10 ^ 6))"
    unfolding e by auto
  from c have "at4 (weighted_aff st1) 0 1 0 1 =
        at4 (weighted_aff st0) 0 1 0 1 +
        ln (max (max 0 (pair_pos_fc1 (ex_layer 2 1)
              (row4 (ex_tensor [1, 3, 2, 1] [0, 1, 2, - 3, 4, 5]) 0 1 1) 0)) (1 / 10 ^ 6))"
    by simp
  then have "at4 (weighted_aff st1) 0 1 0 1 = at4 (weighted_aff st0) 0 1 0 1 + ln (1 / 10 ^ 6)"
    unfolding g by simp
  with v p a b show ?thesis by blast
qed

section \<open>What an output row depends on\<close>

text \<open>
  C9. The output row of region \<open>i\<close> in batch entry \<open>b\<close> depends on the features only
  through row \<open>(b, i)\<close> and the neighbour rows \<open>(b, j)\<close> with \<open>j\<close> below the
  neighbourhood size: two well-shaped calls whose features agree on these rows, the other
  arguments being the same, return the same row \<open>(b, i)\<close>.
\<close>

theorem output_row_dependencies:
  assumes v: "valid_call l B N roi adj pe lb" and v': "valid_call l B N roi' adj pe lb"
    and bi: "b < B" "i < N"
    and ri: "row3 roi' b i = row3 roi b i"
    and rj: "\<forall>j<nat (eff_nongt l N). row3 roi' b j = row3 roi b j"
  shows "\<exists>out out'. forward l roi adj pe lb = Inr out \<and> forward l roi' adj pe lb = Inr out' \<and>
     row3 out' b i = row3 out b i"
proof -
  define M where "M = nat (eff_nongt l N)"
  define F where "F = feat_dim l"
  note f = valid_call_facts[OF v, folded M_def F_def]
  note f' = valid_call_facts[OF v', folded M_def F_def]
  have rj': "row3 roi' b j = row3 roi b j" if "j < M" for j
    using rj that by (simp add: M_def)
  have a: "at3 roi' b j c = at3 roi b j c" if "j < M" "c < F" for j c
    using rj'[OF that(1)] row3_nth[OF f(7) that(2)] row3_nth[OF f'(7) that(2)] by metis
  have cs: "content_score l roi' b i h j = content_score l roi b i h j" if "j < M" for h j
    by (simp add: content_score_def ri rj'[OF that])
  have sc: "score_fn l roi' adj pe lb b i h j = score_fn l roi adj pe lb b i h j" if "j < M" for h j
    by (simp add: score_fn_def cs[OF that])
  have at: "attn_fn l roi' adj pe lb M b i h j = attn_fn l roi adj pe lb M b i h j" if "j < M" for h j
  proof -
    have "sum_list (map (\<lambda>k. exp (score_fn l roi' adj pe lb b i h k)) [0..<M])
        = sum_list (map (\<lambda>k. exp (score_fn l roi adj pe lb b i h k)) [0..<M])"
      by (intro sum_list_upt_cong) (simp add: sc)
    then show ?thesis by (simp add: attn_fn_def sc[OF that])
  qed
  have o: "out_fn l roi' adj pe lb M b i c = out_fn l roi adj pe lb M b i c" for c
  proof -
    have "sum_list (map (\<lambda>j. attn_fn l roi' adj pe lb M b i (ch div F) j * at3 roi' b j (ch mod F)) [0..<M])
        = sum_list (map (\<lambda>j. attn_fn l roi adj pe lb M b i (ch div F) j * at3 roi b j (ch mod F)) [0..<M])"
      for ch
      using f(4) by (intro sum_list_upt_cong) (simp add: at a)
    then show ?thesis by (simp add: out_fn_def F_def)
  qed
  have "row3 (tab3 B N F (out_fn l roi' adj pe lb M)) b i = row3 (tab3 B N F (out_fn l roi adj pe lb M)) b i"
    using bi by (simp add: row3_tab3 o)
  then show ?thesis
    by (simp add: forward_eq[OF v] forward_eq[OF v'] M_def F_def)
qed

theorem output_row_dependencies_witness:
  "valid_call (ex_layer 2 (- 1)) 1 4 (ex_tensor [1, 4, 1] [1, 2, 3, 4]) None None None \<and>
   valid_call (ex_layer 2 (- 1)) 1 4 (ex_tensor [1, 4, 1] [1, 2, 7, 4]) None None None \<and>
   (\<exists>out out'. forward (ex_layer 2 (- 1)) (ex_tensor [1, 4, 1] [1, 2, 3, 4]) None None None = Inr out \<and>
      forward (ex_layer 2 (- 1)) (ex_tensor [1, 4, 1] [1, 2, 7, 4]) None None None = Inr out' \<and>
      row3 out' 0 3 = row3 out 0 3)"
proof -
  have v: "valid_call (ex_layer 2 (- 1)) 1 4 (ex_tensor [1, 4, 1] [1, 2, 3, 4]) None None None"
    and v': "valid_call (ex_layer 2 (- 1)) 1 4 (ex_tensor [1, 4, 1] [1, 2, 7, 4]) None None None"
    by (simp_all add: valid_defs)
  have e: "nat (eff_nongt (ex_layer 2 (- 1)) 4) = 2"
    by (simp add: eff_nongt_def ex_layer_def)
  have u: "[0..<2] = [0, 1]" by (simp add: upt_rec)
  have ri: "row3 (ex_tensor [1, 4, 1] [1, 2, 7, 4]) 0 3 = row3 (ex_tensor [1, 4, 1] [1, 2, 3, 4]) 0 3"
    by (simp add: row3_def at3_def idx3_def ex_tensor_def)
  have rj: "\<forall>j<nat (eff_nongt (ex_layer 2 (- 1)) 4).
      row3 (ex_tensor [1, 4, 1] [1, 2, 7, 4]) 0 j = row3 (ex_tensor [1, 4, 1] [1, 2, 3, 4]) 0 j"
    unfolding e by (simp add: row3_def at3_def idx3_def ex_tensor_def less_Suc_eq numeral_2_eq_2)
  show ?thesis
    using v v' output_row_dependencies [OF v v' _ _ ri rj] by simp
qed

section \<open>Adjacency mask and label biases\<close>









end
